theory Spec2Isabelle
  imports Complex_Main "HOL-Library.Sublist"
begin

section \<open>JavaScript values shared by the embedded classes\<close>

text \<open>
  The toolkit is TypeScript that runs as JavaScript in a browser. Numbers are modelled as
  \<^typ>\<open>real\<close>, nullable references as \<^typ>\<open>'a option\<close>, strings as \<^typ>\<open>string\<close>,
  and an uncaught exception as the left injection of a sum.
\<close>

datatype js_error = TypeError | ReferenceError | DomError

text \<open>String concatenation with a nullable operand: JavaScript prints \<open>null\<close>.\<close>

definition js_str :: "string option \<Rightarrow> string" where
  "js_str s = (case s of None \<Rightarrow> ''null'' | Some t \<Rightarrow> t)"

text \<open>Truthiness of a nullable string: \<open>null\<close> and the empty string are falsy.\<close>

definition truthy_str :: "string option \<Rightarrow> bool" where
  "truthy_str s = (case s of None \<Rightarrow> False | Some t \<Rightarrow> t \<noteq> [])"

text \<open>\<open>s.substring(0, n)\<close> for \<open>n \<ge> 0\<close> and \<open>s.charAt(0)\<close> (the empty string when out of range).\<close>

definition substring0 :: "string \<Rightarrow> nat \<Rightarrow> string" where
  "substring0 s n = take n s"

definition charAt0 :: "string \<Rightarrow> string" where
  "charAt0 s = take 1 s"

text \<open>\<open>s.lastIndexOf(c)\<close>: the greatest index holding \<open>c\<close>, or \<open>-1\<close>.\<close>

fun lastIndexOf_from :: "string \<Rightarrow> char \<Rightarrow> int \<Rightarrow> int \<Rightarrow> int" where
  "lastIndexOf_from [] c i acc = acc"
| "lastIndexOf_from (x # xs) c i acc =
     lastIndexOf_from xs c (i + 1) (if x = c then i else acc)"

definition lastIndexOf :: "string \<Rightarrow> char \<Rightarrow> int" where
  "lastIndexOf s c = lastIndexOf_from s c 0 (- 1)"

section \<open>mxUrlConverter\<close>

record mxUrlConverter =
  url_enabled :: bool
  baseUrl :: "string option"
  baseDomain :: "string option"

text \<open>The browser's \<open>location\<close> object, read by \<open>updateBaseUrl\<close>.\<close>

record location =
  protocol :: string
  host :: string
  pathname :: string

definition updateBaseUrl :: "location \<Rightarrow> mxUrlConverter \<Rightarrow> mxUrlConverter" where
  "updateBaseUrl loc c =
     (let dom = protocol loc @ ''//'' @ host loc;
          base = dom @ pathname loc;
          tmp = lastIndexOf base (CHR ''/'')
      in c\<lparr>baseDomain := Some dom,
            baseUrl := Some (if tmp > 0 then substring0 base (nat (tmp + 1)) else base)\<rparr>)"

definition isRelativeUrl :: "string \<Rightarrow> bool" where
  "isRelativeUrl url \<longleftrightarrow>
     url \<noteq> [] \<and>
     substring0 url 2 \<noteq> ''//'' \<and>
     substring0 url 7 \<noteq> ''http://'' \<and>
     substring0 url 8 \<noteq> ''https://'' \<and>
     substring0 url 10 \<noteq> ''data:image'' \<and>
     substring0 url 7 \<noteq> ''file://''"

text \<open>\<open>convert\<close> returns the converted URL and the converter, whose base may have been filled in.\<close>

definition convert :: "location \<Rightarrow> mxUrlConverter \<Rightarrow> string \<Rightarrow> string \<times> mxUrlConverter" where
  "convert loc c url =
     (if url_enabled c \<and> isRelativeUrl url then
        (let c1 = (if \<not> truthy_str (baseUrl c) then updateBaseUrl loc c else c)
         in if charAt0 url = ''/'' then (js_str (baseDomain c1) @ url, c1)
            else (js_str (baseUrl c1) @ url, c1))
      else (url, c))"

text \<open>The spec's description of a non-relative URL: empty, or with one of the five prefixes.\<close>

definition startsWith :: "string \<Rightarrow> string \<Rightarrow> bool" where
  "startsWith url p \<longleftrightarrow> take (length p) url = p"

definition nonRelativeUrl :: "string \<Rightarrow> bool" where
  "nonRelativeUrl url \<longleftrightarrow>
     url = [] \<or> startsWith url ''//'' \<or> startsWith url ''http://'' \<or>
     startsWith url ''https://'' \<or> startsWith url ''data:image'' \<or> startsWith url ''file://''"

section \<open>Points, rectangles, geometries and cells\<close>

text \<open>
  The classes \<open>Point\<close>, \<open>Rectangle\<close>, \<open>Geometry\<close> and \<open>Cell\<close> are used by the
  embedded code but their own files are not among the embedded sources. They are the plain
  records of the glossary: a geometry is the position/size record attached to a cell, a cell
  is a diagram element with a user value, a style and a geometry.
\<close>

record Point =
  px :: real
  py :: real

record Rectangle =
  rx :: real
  ry :: real
  rwidth :: real
  rheight :: real

record Geometry =
  gx :: real
  gy :: real
  width :: real
  height :: real
  relative :: bool
  sourcePoint :: "Point option"
  targetPoint :: "Point option"
  points :: "Point list option"

text \<open>
  Modelled from the spec: the constructor of \<open>Geometry\<close>, a position/size record. It stores
  its four arguments; an omitted argument (\<open>new Geometry()\<close>) is \<open>0\<close>.
\<close>

definition new_Geometry :: "real \<Rightarrow> real \<Rightarrow> real \<Rightarrow> real \<Rightarrow> Geometry" where
  "new_Geometry x y w h =
     \<lparr>gx = x, gy = y, width = w, height = h, relative = False,
      sourcePoint = None, targetPoint = None, points = None\<rparr>"

definition setTerminalPoint :: "Point option \<Rightarrow> bool \<Rightarrow> Geometry \<Rightarrow> Geometry" where
  "setTerminalPoint p isSource g =
     (if isSource then g\<lparr>sourcePoint := p\<rparr> else g\<lparr>targetPoint := p\<rparr>)"

text \<open>
  A cell is an object: \<open>cell_oid\<close> is its identity (\<open>===\<close> compares it). The terminals an
  edge stores are kept as the identities of the terminal cells.
\<close>

record Cell =
  cell_oid :: nat
  cell_value :: "string option"
  geometry :: "Geometry option"
  cell_style :: "string option"
  cell_id :: "string option"
  vertex :: bool
  edge :: bool
  connectable :: bool
  source_terminal :: "nat option"
  target_terminal :: "nat option"

text \<open>
  Modelled from the spec: the constructor \<open>new Cell(value, geometry, style)\<close> of a diagram
  cell; \<open>oid\<close> names the new object. The fresh cell is neither vertex nor edge and has no
  terminals.
\<close>

definition new_Cell :: "nat \<Rightarrow> string option \<Rightarrow> Geometry option \<Rightarrow> string option \<Rightarrow> Cell" where
  "new_Cell oid v g st =
     \<lparr>cell_oid = oid, cell_value = v, geometry = g, cell_style = st, cell_id = None,
      vertex = False, edge = False, connectable = True,
      source_terminal = None, target_terminal = None\<rparr>"

definition same_cell :: "Cell option \<Rightarrow> Cell option \<Rightarrow> bool" where
  "same_cell a b = (map_option cell_oid a = map_option cell_oid b)"

definition getTerminal :: "Cell \<Rightarrow> bool \<Rightarrow> nat option" where
  "getTerminal e isSource = (if isSource then source_terminal e else target_terminal e)"

section \<open>GraphVertex.createVertex and GraphEdge.createEdge\<close>

text \<open>
  \<open>createVertex\<close> receives the geometry class as its last argument and calls its constructor
  with \<open>(x, y, width, height)\<close>; \<open>relative\<close> is nullable and defaults to \<open>false\<close>.
\<close>

definition createVertex ::
  "nat \<Rightarrow> Cell option \<Rightarrow> string option \<Rightarrow> string option \<Rightarrow> real \<Rightarrow> real \<Rightarrow> real \<Rightarrow> real \<Rightarrow>
   string option \<Rightarrow> bool option \<Rightarrow> (real \<Rightarrow> real \<Rightarrow> real \<Rightarrow> real \<Rightarrow> Geometry) \<Rightarrow> Cell" where
  "createVertex oid parent ident v x y w h st rel geometryClass =
     (let geo = geometryClass x y w h;
          geo = geo\<lparr>relative := (case rel of Some r \<Rightarrow> r | None \<Rightarrow> False)\<rparr>;
          vtx = new_Cell oid v (Some geo) st
      in vtx\<lparr>cell_id := ident, vertex := True, connectable := True\<rparr>)"

definition createEdge ::
  "nat \<Rightarrow> Cell option \<Rightarrow> string option \<Rightarrow> string option \<Rightarrow> Cell option \<Rightarrow> Cell option \<Rightarrow>
   string option \<Rightarrow> Cell" where
  "createEdge oid parent ident v source target st =
     (let e = new_Cell oid v (Some (new_Geometry 0 0 0 0)) st;
          e = e\<lparr>cell_id := ident, edge := True\<rparr>
      in e\<lparr>geometry := map_option (\<lambda>g. g\<lparr>relative := True\<rparr>) (geometry e)\<rparr>)"

section \<open>GraphValidation\<close>

text \<open>
  The validation methods run with \<open>this\<close> bound to the graph, whose switches and model
  queries they read. A multiplicity rule is represented by its \<open>check\<close> method.
\<close>

type_synonym Multiplicity = "Cell option \<Rightarrow> Cell \<Rightarrow> Cell \<Rightarrow> nat \<Rightarrow> nat \<Rightarrow> string option"

record GraphValidation =
  allowDanglingEdges :: bool
  allowLoops :: bool
  multigraph :: bool
  alreadyConnectedResource :: string
  multiplicities :: "Multiplicity list option"
  isValidConnection :: "Cell option \<Rightarrow> Cell option \<Rightarrow> bool"
  getEdgesBetween :: "Cell \<Rightarrow> Cell \<Rightarrow> Cell list"
  getDirectedEdgeCount :: "Cell \<Rightarrow> bool \<Rightarrow> Cell option \<Rightarrow> nat"
  Resources_get :: "string \<Rightarrow> string option"

definition validateEdge :: "Cell option \<Rightarrow> Cell \<Rightarrow> Cell \<Rightarrow> string option" where
  "validateEdge e source target = None"

fun check_multiplicities ::
  "Multiplicity list \<Rightarrow> Cell option \<Rightarrow> Cell \<Rightarrow> Cell \<Rightarrow> nat \<Rightarrow> nat \<Rightarrow> string \<Rightarrow> string" where
  "check_multiplicities [] e s t sourceOut targetIn err = err"
| "check_multiplicities (m # ms) e s t sourceOut targetIn err =
     check_multiplicities ms e s t sourceOut targetIn
       (case m e s t sourceOut targetIn of None \<Rightarrow> err | Some msg \<Rightarrow> err @ msg)"

definition isAllowDanglingEdges :: "GraphValidation \<Rightarrow> bool" where
  "isAllowDanglingEdges g = allowDanglingEdges g"

text \<open>The result is \<open>None\<close> for \<open>null\<close> (valid) and \<open>Some\<close> of the message otherwise.\<close>

definition getEdgeValidationError ::
  "GraphValidation \<Rightarrow> Cell option \<Rightarrow> Cell option \<Rightarrow> Cell option \<Rightarrow> string option" where
  "getEdgeValidationError g e source target =
     (if e \<noteq> None \<and> \<not> isAllowDanglingEdges g \<and> (source = None \<or> target = None) then Some []
      else if (case e of None \<Rightarrow> False
               | Some ed \<Rightarrow> getTerminal ed True = None \<and> getTerminal ed False = None) then None
      else if \<not> allowLoops g \<and> same_cell source target \<and> source \<noteq> None then Some []
      else if \<not> isValidConnection g source target then Some []
      else (case (source, target) of
              (Some s, Some t) \<Rightarrow>
                (let tmp = getEdgesBetween g s t;
                     err0 = (if \<not> multigraph g \<and>
                                (length tmp > 1 \<or>
                                 (length tmp = 1 \<and> \<not> same_cell (Some (hd tmp)) e))
                             then (if truthy_str (Resources_get g (alreadyConnectedResource g))
                                   then js_str (Resources_get g (alreadyConnectedResource g))
                                   else alreadyConnectedResource g) @ [CHR 0x0A]
                             else []);
                     sourceOut = getDirectedEdgeCount g s True e;
                     targetIn = getDirectedEdgeCount g t False e;
                     err1 = (case multiplicities g of None \<Rightarrow> err0
                             | Some ms \<Rightarrow> check_multiplicities ms e s t sourceOut targetIn err0);
                     err2 = (case validateEdge e s t of None \<Rightarrow> err1 | Some m \<Rightarrow> err1 @ m)
                 in if length err2 > 0 then Some err2 else None)
            | _ \<Rightarrow> if allowDanglingEdges g then None else Some []))"

definition isEdgeValid :: "GraphValidation \<Rightarrow> Cell option \<Rightarrow> Cell option \<Rightarrow> Cell option \<Rightarrow> bool" where
  "isEdgeValid g e source target = (getEdgeValidationError g e source target = None)"

section \<open>Objects around the connection handler\<close>

record ConnectionConstraint =
  cc_point :: "Point option"
  cc_perimeter :: bool
  cc_name :: "string option"
  cc_dx :: real
  cc_dy :: real

text \<open>
  A cell state is an object (\<open>state_oid\<close> is its identity). \<open>centerX\<close> and \<open>centerY\<close> are
  what \<open>getCenterX()\<close> and \<open>getCenterY()\<close> return. \<open>absolutePoints\<close> is a JavaScript array
  whose entries may be \<open>null\<close>; \<open>exitX\<close> .. \<open>entryY\<close> are the four style entries that
  \<open>updateEdgeState\<close> writes (\<open>None\<close> when the key is absent).
\<close>

record CellState =
  state_oid :: nat
  cell :: Cell
  centerX :: real
  centerY :: real
  absolutePoints :: "Point option list"
  exitX :: "real option"
  exitY :: "real option"
  entryX :: "real option"
  entryY :: "real option"

definition same_state :: "CellState option \<Rightarrow> CellState option \<Rightarrow> bool" where
  "same_state a b = (map_option state_oid a = map_option state_oid b)"

record ImageShape =
  icon_oid :: nat
  bounds :: Rectangle

text \<open>The preview shape of the handler (a \<open>Polyline\<close> or the renderer's shape).\<close>

record Shape =
  sh_points :: "Point option list"
  stroke :: string
  strokeWidth :: real
  has_node :: bool
  dialect :: "string option"
  sh_scale :: real
  pointerEvents :: bool
  isDashed :: bool

record HighlightShape =
  hs_stroke :: string
  hs_strokeWidth :: real

record Highlight =
  hl_state :: "CellState option"
  hl_shape :: "HighlightShape option"

text \<open>
  Of the cell marker the handler reads \<open>validState\<close> (also through \<open>getValidState()\<close> and
  \<open>hasValidState()\<close>), \<open>source\<close> and the highlight.
\<close>

record CellMarker =
  validState :: "CellState option"
  marker_source :: "Cell option"
  highlight :: "Highlight option"

record ConstraintHandler =
  currentFocus :: "CellState option"
  currentConstraint :: "ConnectionConstraint option"
  ch_currentPoint :: "Point option"

text \<open>
  The native event: \<open>isAltDown\<close>, \<open>isShiftDown\<close>, \<open>getClientX\<close> and \<open>getClientY\<close> read
  these. \<open>isTouchEvent\<close> is the value of \<open>evt instanceof TouchEvent\<close> where the page
  defines \<open>TouchEvent\<close>, \<open>isMouseEvent\<close> the result of \<open>isMouseEvent(evt)\<close>, and
  \<open>hasPreventDefault\<close> says whether \<open>evt.preventDefault\<close> is defined.
\<close>

record MouseEvent =
  altDown :: bool
  shiftDown :: bool
  clientX :: real
  clientY :: real
  isTouchEvent :: bool
  isMouseEvent :: bool
  hasPreventDefault :: bool

record InternalMouseEvent =
  consumed :: bool
  graphX :: real
  graphY :: real
  me_state :: "CellState option"
  evt :: MouseEvent

definition isConsumed :: "InternalMouseEvent \<Rightarrow> bool" where
  "isConsumed me = consumed me"

definition getGraphX :: "InternalMouseEvent \<Rightarrow> real" where
  "getGraphX me = graphX me"

definition getGraphY :: "InternalMouseEvent \<Rightarrow> real" where
  "getGraphY me = graphY me"

definition getState :: "InternalMouseEvent \<Rightarrow> CellState option" where
  "getState me = me_state me"

definition getCell :: "InternalMouseEvent \<Rightarrow> Cell option" where
  "getCell me = map_option cell (getState me)"

section \<open>Effects on the page and on the graph\<close>

datatype effect =
    Alert "string option"
  | PreventDefault
  | NativeConsume
  | FireEvent string "CellState option"
  | ShapeDestroy
  | ShapeInit
  | ShapeRedraw
  | IconDestroy ImageShape
  | IconRedraw ImageShape
  | ContainerCursor string
  | StateCursor CellState "string option"
  | MarkerReset
  | MarkerProcess
  | MarkCell Cell string
  | HighlightRepaint
  | ConstraintUpdate
  | ConstraintReset
  | ConstraintSetFocus
  | SelectCellForEvent "Cell option"
  | ConnectEdge "Cell option" "Cell option" "Cell option"
  | IconInit ImageShape

text \<open>\<open>validationAlert(message)\<close> calls the browser's \<open>alert\<close>; the call is recorded.\<close>

definition validationAlert :: "string option \<Rightarrow> effect list \<Rightarrow> effect list" where
  "validationAlert message fx = fx @ [Alert message]"

section \<open>The connection handler and what it runs in\<close>

record ImageBox =
  img_width :: real
  img_height :: real

record ConnectionHandler =
  previous :: "CellState option"
  iconState :: "CellState option"
  icons :: "ImageShape list option"
  currentPoint :: "Point option"
  sourceConstraint :: "ConnectionConstraint option"
  shape :: "Shape option"
  icon :: "ImageShape option"
  originalPoint :: "Point option"
  currentState :: "CellState option"
  selectedIcon :: "ImageShape option"
  waypoints :: "Point list option"
  connectImage :: "ImageBox option"
  targetConnectImage :: bool
  enabled :: bool
  createTarget :: bool
  error :: "string option"
  waypointsEnabled :: bool
  ignoreMouseDown :: bool
  first :: "Point option"
  connectIconOffset :: Point
  edgeState :: "CellState option"
  mouseDownCounter :: int
  movePreviewAway :: bool
  outlineConnect :: bool
  livePreview :: bool
  cursor :: "string option"

text \<open>
  The handler, the constraint handler and the marker it owns, and the record of the calls
  made on the page and the graph.
\<close>

record world =
  conn :: ConnectionHandler
  constraintHandler :: ConstraintHandler
  marker :: CellMarker
  effects :: "effect list"

text \<open>
  A perimeter function takes the perimeter bounds, the edge state, the next point and the
  \<open>orthogonal\<close> flag.
\<close>

type_synonym perimeter_fn = "Rectangle \<Rightarrow> CellState option \<Rightarrow> Point \<Rightarrow> bool \<Rightarrow> Point option"

text \<open>
  The graph view, the graph, the page and the collaborating objects are not part of the
  embedded sources; what the handler asks of them is a parameter of every operation.
\<close>

record GraphView =
  scale :: real
  translate :: Point
  getPerimeterFunction :: "CellState \<Rightarrow> perimeter_fn option"
  getPerimeterBounds :: "CellState \<Rightarrow> Rectangle"
  updateFixedTerminalPoint ::
    "CellState \<Rightarrow> CellState option \<Rightarrow> bool \<Rightarrow> ConnectionConstraint option \<Rightarrow> CellState"
  updatePoints ::
    "CellState \<Rightarrow> Point list option \<Rightarrow> CellState option \<Rightarrow> CellState option \<Rightarrow> CellState"
  updateFloatingTerminalPoints ::
    "CellState \<Rightarrow> CellState option \<Rightarrow> CellState option \<Rightarrow> CellState"

record Graph =
  graph_enabled :: bool
  isMouseDown :: bool
  gridSize :: real
  tolerance :: real
  has_container :: bool
  validation :: GraphValidation
  view :: GraphView
  isGridEnabledEvent :: "MouseEvent \<Rightarrow> bool"
  grid_snap :: "real \<Rightarrow> real"
  graph_snap :: "real \<Rightarrow> real"
  isIgnoreTerminalEvent :: "MouseEvent \<Rightarrow> bool"
  getOutlineConstraint ::
    "Point \<Rightarrow> CellState \<Rightarrow> InternalMouseEvent \<Rightarrow> ConnectionConstraint option"
  getConnectionConstraint ::
    "CellState \<Rightarrow> CellState option \<Rightarrow> bool \<Rightarrow> ConnectionConstraint option"
  getPointForEvent :: "MouseEvent \<Rightarrow> Point"

text \<open>
  The page: whether the event's source lies in the highlight shape or in an icon's node,
  hit tests of the highlight, the offsets \<open>isOutlineConnectEvent\<close> reads, and the helpers of
  \<open>Utils\<close>. \<open>has_TouchEvent\<close> says whether the page defines the global \<open>TouchEvent\<close>:
  the sources declare it nowhere, and a page without touch support has none.
\<close>

record Browser =
  sourceIsHighlight :: "MouseEvent \<Rightarrow> bool"
  isHighlightAt :: "real \<Rightarrow> real \<Rightarrow> bool"
  container_offset :: Point
  container_scrollLeft :: real
  container_scrollTop :: real
  page_left :: real
  page_top :: real
  hitsIconNode :: "MouseEvent \<Rightarrow> ImageShape \<Rightarrow> bool"
  convertPoint :: "real \<Rightarrow> real \<Rightarrow> Point"
  getRotatedPoint :: "Point \<Rightarrow> real \<Rightarrow> real \<Rightarrow> Point \<Rightarrow> Point"
  style_rotation :: "CellState \<Rightarrow> real"
  has_TouchEvent :: bool

text \<open>
  The collaborators: the methods of \<open>ConstraintHandler\<close> and \<open>CellMarker\<close>, the overridable
  hooks, the shape constructors, and the icon placement. \<open>marker_process\<close> stands for
  \<open>marker.process(me)\<close>: it runs the marker, which calls back the handler's \<open>getCell\<close>
  override; of the handler that callback writes \<open>error\<close> only, so the function yields the new
  marker and the new \<open>error\<close>. \<open>keeps_current_object\<close> says whether the view's update
  functions leave the point object handed to \<open>updateEdgeState\<close> as the last absolute point.
\<close>

record Collaborators =
  ch_update ::
    "InternalMouseEvent \<Rightarrow> bool \<Rightarrow> bool \<Rightarrow> Point option \<Rightarrow> ConstraintHandler \<Rightarrow> ConstraintHandler"
  ch_reset :: "ConstraintHandler \<Rightarrow> ConstraintHandler"
  ch_setFocus :: "InternalMouseEvent \<Rightarrow> CellState \<Rightarrow> bool \<Rightarrow> ConstraintHandler \<Rightarrow> ConstraintHandler"
  marker_process ::
    "InternalMouseEvent \<Rightarrow> ConnectionHandler \<Rightarrow> CellMarker \<Rightarrow> CellMarker \<times> string option"
  marker_reset :: "CellMarker \<Rightarrow> CellMarker"
  marker_markCell :: "Cell \<Rightarrow> string \<Rightarrow> CellMarker \<Rightarrow> CellMarker"
  createEdgeState :: "InternalMouseEvent \<Rightarrow> CellState option"
  new_Polyline :: "Point option list \<Rightarrow> string \<Rightarrow> Shape"
  renderer_createShape :: "CellState \<Rightarrow> Shape option"
  shape_apply :: "CellState \<Rightarrow> Shape \<Rightarrow> Shape"
  getIconPosition :: "ImageShape \<Rightarrow> CellState \<Rightarrow> Point"
  setAbsoluteTerminalPoint :: "Point option \<Rightarrow> bool \<Rightarrow> CellState \<Rightarrow> CellState"
  fresh_oid :: nat
  keeps_current_object :: bool

record env =
  graph :: Graph
  browser :: Browser
  ext :: Collaborators

section \<open>Constants\<close>

definition TOOLTIP_VERTICAL_OFFSET :: real where "TOOLTIP_VERTICAL_OFFSET = 16"
definition DEFAULT_VALID_COLOR :: string where "DEFAULT_VALID_COLOR = ''#00FF00''"
definition OUTLINE_HIGHLIGHT_COLOR :: string where "OUTLINE_HIGHLIGHT_COLOR = ''#00FF00''"
definition OUTLINE_HIGHLIGHT_STROKEWIDTH :: real where "OUTLINE_HIGHLIGHT_STROKEWIDTH = 5"
definition HIGHLIGHT_STROKEWIDTH :: real where "HIGHLIGHT_STROKEWIDTH = 3"
definition VALID_COLOR :: string where "VALID_COLOR = ''#00FF00''"
definition INVALID_COLOR :: string where "INVALID_COLOR = ''#FF0000''"

text \<open>
  \<open>Constants.ts\<close> exports the enumerations \<open>DIALECT\<close> and \<open>CURSOR\<close> but no \<open>DIALECT_SVG\<close>
  and no \<open>CURSOR_CONNECT\<close>: the two names the handler imports are undefined.
\<close>

definition DIALECT_SVG :: "string option" where "DIALECT_SVG = None"
definition CURSOR_CONNECT :: "string option" where "CURSOR_CONNECT = None"

section \<open>Results of operations that may raise\<close>

text \<open>
  An operation either returns a value and the world it leaves, or raises: an uncaught
  exception leaves the world as it was at the \<open>throw\<close>.
\<close>

type_synonym 'a outcome = "(js_error \<times> world) + ('a \<times> world)"

definition throw :: "js_error \<Rightarrow> world \<Rightarrow> 'a outcome" where
  "throw e w = Inl (e, w)"

definition returns :: "'a \<Rightarrow> world \<Rightarrow> 'a outcome" where
  "returns a w = Inr (a, w)"

definition and_then :: "'a outcome \<Rightarrow> ('a \<Rightarrow> world \<Rightarrow> 'b outcome) \<Rightarrow> 'b outcome" where
  "and_then m f = (case m of Inl ew \<Rightarrow> Inl ew | Inr (a, w) \<Rightarrow> f a w)"

definition emit :: "effect list \<Rightarrow> world \<Rightarrow> world" where
  "emit fx w = w\<lparr>effects := effects w @ fx\<rparr>"

text \<open>
  \<open>consume(preventDefault)\<close> of \<open>InternalMouseEvent\<close>. Unless the argument is true the
  method evaluates \<open>this.evt instanceof TouchEvent\<close>, which raises a \<open>ReferenceError\<close>
  on a page that does not define \<open>TouchEvent\<close>: then the native event is not cancelled and
  \<open>consumed\<close> is not set. Otherwise the native event is cancelled when it can be, and the
  local flag is set.
\<close>

definition consume :: "env \<Rightarrow> bool option \<Rightarrow> InternalMouseEvent \<Rightarrow> world \<Rightarrow> InternalMouseEvent outcome" where
  "consume E preventDefault me w =
     (if preventDefault \<noteq> Some True \<and> \<not> has_TouchEvent (browser E) then throw ReferenceError w
      else
        (let pd = (preventDefault = Some True \<or> isTouchEvent (evt me) \<or> isMouseEvent (evt me))
         in returns (me\<lparr>consumed := True\<rparr>)
              (if pd \<and> hasPreventDefault (evt me) then emit [PreventDefault] w else w)))"

definition abs_real :: "real \<Rightarrow> real" where
  "abs_real v = \<bar>v\<bar>"

section \<open>ConnectionHandler: small methods\<close>

definition isEnabled :: "ConnectionHandler \<Rightarrow> bool" where
  "isEnabled h = enabled h"

definition isCreateTarget :: "ConnectionHandler \<Rightarrow> MouseEvent \<Rightarrow> bool" where
  "isCreateTarget h e = createTarget h"

definition isConnecting :: "ConnectionHandler \<Rightarrow> bool" where
  "isConnecting h \<longleftrightarrow> first h \<noteq> None \<and> shape h \<noteq> None"

definition isValidTarget :: "Cell \<Rightarrow> bool" where
  "isValidTarget c = True"

definition validateConnection :: "env \<Rightarrow> Cell \<Rightarrow> Cell \<Rightarrow> string option" where
  "validateConnection E source target =
     (if \<not> isValidTarget target then Some []
      else getEdgeValidationError (validation (graph E)) None (Some source) (Some target))"

definition isCellEnabled :: "Cell \<Rightarrow> bool" where
  "isCellEnabled c = True"

definition isStopEvent :: "InternalMouseEvent \<Rightarrow> bool" where
  "isStopEvent me \<longleftrightarrow> getState me \<noteq> None"

definition isStartEvent :: "ConnectionHandler \<Rightarrow> ConstraintHandler \<Rightarrow> InternalMouseEvent \<Rightarrow> bool" where
  "isStartEvent h c me \<longleftrightarrow>
     (currentFocus c \<noteq> None \<and> currentConstraint c \<noteq> None) \<or>
     (previous h \<noteq> None \<and> error h = None \<and> (icons h = None \<or> icon h \<noteq> None))"

definition getEdgeColor :: "bool \<Rightarrow> string" where
  "getEdgeColor valid = (if valid then VALID_COLOR else INVALID_COLOR)"

definition getEdgeWidth :: "bool \<Rightarrow> real" where
  "getEdgeWidth valid = (if valid then 3 else 1)"

definition updatePreview :: "bool \<Rightarrow> Shape \<Rightarrow> Shape" where
  "updatePreview valid s = s\<lparr>strokeWidth := getEdgeWidth valid, stroke := getEdgeColor valid\<rparr>"

text \<open>\<open>drawPreview\<close> dereferences \<open>this.shape\<close>.\<close>

definition drawPreview :: "world \<Rightarrow> unit outcome" where
  "drawPreview w =
     (case shape (conn w) of
        None \<Rightarrow> throw TypeError w
      | Some s \<Rightarrow>
          returns () (emit [ShapeRedraw]
            (w\<lparr>conn := (conn w)\<lparr>shape := Some (updatePreview (error (conn w) = None) s)\<rparr>\<rparr>)))"

definition destroyIcons :: "world \<Rightarrow> world" where
  "destroyIcons w =
     (case icons (conn w) of
        None \<Rightarrow> w
      | Some ics \<Rightarrow>
          emit (map IconDestroy ics)
            (w\<lparr>conn := (conn w)\<lparr>icons := None, icon := None, selectedIcon := None,
                                 iconState := None\<rparr>\<rparr>))"

definition createShape :: "env \<Rightarrow> world \<Rightarrow> Shape option \<times> world" where
  "createShape E w =
     (let h = conn w;
          shp = (case edgeState h of
                   Some es \<Rightarrow> if livePreview h then renderer_createShape (ext E) es
                              else Some (new_Polyline (ext E) [] INVALID_COLOR)
                 | None \<Rightarrow> Some (new_Polyline (ext E) [] INVALID_COLOR))
      in case shp of
           None \<Rightarrow> (None, w)
         | Some s \<Rightarrow>
             if has_node s then
               (Some (s\<lparr>dialect := DIALECT_SVG, sh_scale := scale (view (graph E)),
                        pointerEvents := False, isDashed := True\<rparr>),
                emit [ShapeInit] w)
             else (Some s, w))"

text \<open>\<open>reset\<close>. The event \<open>RESET\<close> is fired last.\<close>

definition reset :: "env \<Rightarrow> world \<Rightarrow> world" where
  "reset E w =
     (let w1 = (case shape (conn w) of
                  Some s \<Rightarrow> emit [ShapeDestroy] (w\<lparr>conn := (conn w)\<lparr>shape := None\<rparr>\<rparr>)
                | None \<Rightarrow> w);
          w2 = (if cursor (conn w1) \<noteq> None \<and> has_container (graph E)
                then emit [ContainerCursor []] w1 else w1);
          w3 = destroyIcons w2;
          w4 = emit [MarkerReset] (w3\<lparr>marker := marker_reset (ext E) (marker w3)\<rparr>);
          w5 = emit [ConstraintReset]
                 (w4\<lparr>constraintHandler := ch_reset (ext E) (constraintHandler w4)\<rparr>);
          w6 = w5\<lparr>conn := (conn w5)\<lparr>originalPoint := None, currentPoint := None,
                                      edgeState := None, previous := None, error := None,
                                      sourceConstraint := None, mouseDownCounter := 0,
                                      first := None\<rparr>\<rparr>
      in emit [FireEvent ''reset'' None] w6)"

text \<open>
  \<open>snapToPreview\<close> changes the point it is given in place; the model returns the point.
  When there is no source constraint the reference is written \<open>new point(...)\<close>, where
  \<open>point\<close> is the parameter, a \<open>Point\<close> instance and not a constructor: evaluating it raises
  a \<open>TypeError\<close>. With a source constraint the reference is \<open>this.first\<close>, dereferenced.
\<close>

definition snapToPreview ::
  "env \<Rightarrow> ConnectionHandler \<Rightarrow> InternalMouseEvent \<Rightarrow> Point \<Rightarrow> js_error + Point" where
  "snapToPreview E h me point =
     (if \<not> altDown (evt me) \<and> previous h \<noteq> None then
        (let tol = (gridSize (graph E) * scale (view (graph E))) / 2
         in case sourceConstraint h of
              None \<Rightarrow> Inl TypeError
            | Some sc \<Rightarrow>
                (case first h of
                   None \<Rightarrow> Inl TypeError
                 | Some tmp \<Rightarrow>
                     (let p1 = (if abs_real (px tmp - getGraphX me) < tol
                                then point\<lparr>px := px tmp\<rparr> else point);
                          p2 = (if abs_real (py tmp - getGraphY me) < tol
                                then p1\<lparr>py := py tmp\<rparr> else p1)
                      in Inr p2)))
      else Inr point)"

text \<open>
  \<open>getTargetPerimeterPoint\<close>. Without waypoints the next point is built from
  \<open>this.previous\<close>, dereferenced.
\<close>

definition getTargetPerimeterPoint ::
  "env \<Rightarrow> ConnectionHandler \<Rightarrow> CellState \<Rightarrow> InternalMouseEvent \<Rightarrow> js_error + Point option" where
  "getTargetPerimeterPoint E h st me =
     (case getPerimeterFunction (view (graph E)) st of
        Some targetPerimeter \<Rightarrow>
          (case (case waypoints h of
                   Some (wp # wps) \<Rightarrow> Inr (last (wp # wps))
                 | _ \<Rightarrow> (case previous h of
                           None \<Rightarrow> Inl TypeError
                         | Some p \<Rightarrow> Inr \<lparr>px = centerX p, py = centerY p\<rparr>)) of
             Inl e \<Rightarrow> Inl e
           | Inr next \<Rightarrow>
               Inr (targetPerimeter (getPerimeterBounds (view (graph E)) st)
                      (edgeState h) next False))
      | None \<Rightarrow> Inr (Some \<lparr>px = centerX st, py = centerY st\<rparr>))"

definition getSourcePerimeterPoint ::
  "env \<Rightarrow> CellState \<Rightarrow> Point \<Rightarrow> InternalMouseEvent \<Rightarrow> Point option" where
  "getSourcePerimeterPoint E st next me =
     (let c = \<lparr>px = centerX st, py = centerY st\<rparr>
      in case getPerimeterFunction (view (graph E)) st of
           Some sourcePerimeter \<Rightarrow>
             (let theta = style_rotation (browser E) st;
                  rad = - theta * (pi / 180);
                  next1 = (if theta \<noteq> 0
                           then getRotatedPoint (browser E) \<lparr>px = px next, py = py next\<rparr>
                                  (cos rad) (sin rad) c
                           else next)
              in case sourcePerimeter (getPerimeterBounds (view (graph E)) st) (Some st) next1 False of
                   None \<Rightarrow> None
                 | Some tmp \<Rightarrow>
                     Some (if theta \<noteq> 0
                           then getRotatedPoint (browser E) \<lparr>px = px tmp, py = py tmp\<rparr>
                                  (cos (- rad)) (sin (- rad)) c
                           else tmp))
         | None \<Rightarrow> Some c)"

definition checkConstraints ::
  "ConnectionConstraint option \<Rightarrow> ConnectionConstraint option \<Rightarrow> bool" where
  "checkConstraints c1 c2 =
     (case (c1, c2) of
        (Some a, Some b) \<Rightarrow>
          (case (cc_point a, cc_point b) of
             (Some p, Some q) \<Rightarrow>
               \<not> (px p = px q \<and> py p = py q) \<or> cc_dx a \<noteq> cc_dx b \<or> cc_dy a \<noteq> cc_dy b \<or>
               cc_perimeter a \<noteq> cc_perimeter b
           | _ \<Rightarrow> True)
      | _ \<Rightarrow> True)"

section \<open>ConnectionHandler.updateCurrentState\<close>

text \<open>\<open>me.isSource(shape)\<close> of \<open>InternalMouseEvent\<close>, for the highlight's shape.\<close>

definition isSource :: "env \<Rightarrow> InternalMouseEvent \<Rightarrow> HighlightShape option \<Rightarrow> bool" where
  "isSource E me shp =
     (case shp of None \<Rightarrow> False | Some s \<Rightarrow> sourceIsHighlight (browser E) (evt me))"

definition getValidState :: "CellMarker \<Rightarrow> CellState option" where
  "getValidState m = validState m"

definition hasValidState :: "CellMarker \<Rightarrow> bool" where
  "hasValidState m \<longleftrightarrow> validState m \<noteq> None"

definition isOutlineConnectEvent :: "env \<Rightarrow> InternalMouseEvent \<Rightarrow> world \<Rightarrow> js_error + bool" where
  "isOutlineConnectEvent E me w =
     (case currentPoint (conn w) of
        None \<Rightarrow> Inl TypeError
      | Some cp \<Rightarrow>
          (let b = browser E;
               cX = clientX (evt me);
               cY = clientY (evt me);
               gridX = px cp - container_scrollLeft b + px (container_offset b) - page_left b;
               gridY = py cp - container_scrollTop b + py (container_offset b) - page_top b
           in if outlineConnect (conn w) \<and> \<not> shiftDown (evt me) then
                (case highlight (marker w) of
                   None \<Rightarrow> Inl TypeError
                 | Some hl \<Rightarrow>
                     Inr (isSource E me (hl_shape hl) \<or>
                          (altDown (evt me) \<and> getState me \<noteq> None) \<or>
                          isHighlightAt b cX cY \<or>
                          ((gridX \<noteq> cX \<or> gridY \<noteq> cY) \<and> getState me = None \<and>
                           isHighlightAt b gridX gridY)))
              else Inr False))"

definition set_highlight_shape :: "HighlightShape \<Rightarrow> world \<Rightarrow> world" where
  "set_highlight_shape hs w =
     w\<lparr>marker := (marker w)\<lparr>highlight :=
          map_option (\<lambda>hl. hl\<lparr>hl_shape := Some hs\<rparr>) (highlight (marker w))\<rparr>\<rparr>"

definition reset_constraintHandler :: "env \<Rightarrow> world \<Rightarrow> world" where
  "reset_constraintHandler E w =
     emit [ConstraintReset] (w\<lparr>constraintHandler := ch_reset (ext E) (constraintHandler w)\<rparr>)"

definition reset_marker :: "env \<Rightarrow> world \<Rightarrow> world" where
  "reset_marker E w = emit [MarkerReset] (w\<lparr>marker := marker_reset (ext E) (marker w)\<rparr>)"

text \<open>
  \<open>updateCurrentState\<close> returns nothing. The model returns whether it stored the point
  object it was given as \<open>constraintHandler.currentPoint\<close>: the caller changes that object
  in place later.

  The branch taken when the constraint handler has a focus and a constraint.
\<close>

definition updateCurrentState_focus :: "env \<Rightarrow> InternalMouseEvent \<Rightarrow> CellState \<Rightarrow> world \<Rightarrow> bool outcome" where
  "updateCurrentState_focus E me cf w =
     (let markIt = returns False
            (emit [MarkCell (cell cf) ''transparent'']
               (w\<lparr>marker := marker_markCell (ext E) (cell cf) ''transparent'' (marker w)\<rparr>))
      in and_then
           (case highlight (marker w) of
              None \<Rightarrow> markIt
            | Some hl \<Rightarrow>
                (case hl_state hl of
                   None \<Rightarrow> markIt
                 | Some hst \<Rightarrow>
                     if cell_oid (cell hst) = cell_oid (cell cf) then
                       (case hl_shape hl of
                          None \<Rightarrow> throw TypeError w
                        | Some hs \<Rightarrow>
                            if hs_stroke hs \<noteq> ''transparent'' then
                              returns False (emit [HighlightRepaint]
                                (set_highlight_shape (hs\<lparr>hs_stroke := ''transparent''\<rparr>) w))
                            else returns False w)
                     else markIt))
           (\<lambda>u w1.
              case previous (conn w1) of
                None \<Rightarrow> returns False w1
              | Some prev \<Rightarrow>
                  (let err = validateConnection E (cell prev) (cell cf);
                       w2 = w1\<lparr>conn := (conn w1)\<lparr>error := err\<rparr>\<rparr>;
                       w3 = (if err = None
                             then w2\<lparr>conn := (conn w2)\<lparr>currentState := Some cf\<rparr>\<rparr> else w2)
                   in if error (conn w3) \<noteq> None \<or>
                         (case currentState (conn w3) of
                            None \<Rightarrow> False | Some cs \<Rightarrow> \<not> isCellEnabled (cell cs))
                      then returns False (reset_constraintHandler E w3)
                      else returns False w3)))"

text \<open>
  The other branch: the marker decides the current state, then the outline is looked at.
  In the outline case with the event's source in the highlight shape the point is rebuilt
  by \<open>new point(...)\<close>, \<open>point\<close> being the parameter: a \<open>TypeError\<close>.
\<close>

definition updateCurrentState_marker :: "env \<Rightarrow> InternalMouseEvent \<Rightarrow> Point \<Rightarrow> world \<Rightarrow> bool outcome" where
  "updateCurrentState_marker E me point w =
     (let w2 = (if isIgnoreTerminalEvent (graph E) (evt me) then
                  (let wr = reset_marker E w
                   in wr\<lparr>conn := (conn wr)\<lparr>currentState := None\<rparr>\<rparr>)
                else
                  (case marker_process (ext E) me (conn w) (marker w) of
                     (mk, err) \<Rightarrow>
                       emit [MarkerProcess]
                         (w\<lparr>marker := mk,
                            conn := (conn w)\<lparr>error := err, currentState := getValidState mk\<rparr>\<rparr>)));
          w3 = (case currentState (conn w2) of
                  None \<Rightarrow> w2
                | Some cs \<Rightarrow>
                    if \<not> isCellEnabled (cell cs) then
                      (let wr = reset_marker E (reset_constraintHandler E w2)
                       in wr\<lparr>conn := (conn wr)\<lparr>currentState := None\<rparr>\<rparr>)
                    else w2)
      in case isOutlineConnectEvent E me w3 of
           Inl e \<Rightarrow> throw e w3
         | Inr outline \<Rightarrow>
             and_then
               (case currentState (conn w3) of
                  None \<Rightarrow> returns False w3
                | Some cs \<Rightarrow>
                    if outline then
                      (case highlight (marker w3) of
                         None \<Rightarrow> throw TypeError w3
                       | Some hl \<Rightarrow>
                           if isSource E me (hl_shape hl) then throw TypeError w3
                           else
                             (let constraint = getOutlineConstraint (graph E) point cs me;
                                  c1 = ch_setFocus (ext E) me cs False (constraintHandler w3)
                              in returns True
                                   (emit [ConstraintSetFocus]
                                      (w3\<lparr>constraintHandler :=
                                            c1\<lparr>currentConstraint := constraint,
                                               ch_currentPoint := Some point\<rparr>\<rparr>))))
                    else returns False w3)
               (\<lambda>shared w4.
                  if outlineConnect (conn w4) then
                    (case highlight (marker w4) of
                       None \<Rightarrow> returns shared w4
                     | Some hl \<Rightarrow>
                         (case hl_shape hl of
                            None \<Rightarrow> returns shared w4
                          | Some hs \<Rightarrow>
                              (let s = scale (view (graph E))
                               in if currentConstraint (constraintHandler w4) \<noteq> None \<and>
                                     currentFocus (constraintHandler w4) \<noteq> None then
                                    returns shared (emit [HighlightRepaint]
                                      (set_highlight_shape
                                         (hs\<lparr>hs_stroke := OUTLINE_HIGHLIGHT_COLOR,
                                             hs_strokeWidth := OUTLINE_HIGHLIGHT_STROKEWIDTH / s / s\<rparr>)
                                         w4))
                                  else if hasValidState (marker w4) then
                                    (case getCell me of
                                       None \<Rightarrow> throw TypeError w4
                                     | Some c \<Rightarrow>
                                         if connectable c \<and>
                                            \<not> same_state (getValidState (marker w4)) (getState me) then
                                           returns shared (emit [HighlightRepaint]
                                             (set_highlight_shape
                                                (hs\<lparr>hs_stroke := ''transparent'',
                                                    hs_strokeWidth := HIGHLIGHT_STROKEWIDTH / s / s\<rparr>)
                                                (w4\<lparr>conn := (conn w4)\<lparr>currentState := None\<rparr>\<rparr>)))
                                         else
                                           returns shared (emit [HighlightRepaint]
                                             (set_highlight_shape
                                                (hs\<lparr>hs_stroke := DEFAULT_VALID_COLOR,
                                                    hs_strokeWidth := HIGHLIGHT_STROKEWIDTH / s / s\<rparr>)
                                                w4)))
                                  else returns shared w4)))
                  else returns shared w4))"

definition updateCurrentState :: "env \<Rightarrow> InternalMouseEvent \<Rightarrow> Point \<Rightarrow> world \<Rightarrow> bool outcome" where
  "updateCurrentState E me point w =
     (case (if first (conn w) = None then Inr None
            else (case highlight (marker w) of
                    None \<Rightarrow> Inl TypeError
                  | Some hl \<Rightarrow> Inr (if isSource E me (hl_shape hl) then None else Some point))) of
        Inl e \<Rightarrow> throw e w
      | Inr parg \<Rightarrow>
          (let w1 = emit [ConstraintUpdate]
                      (w\<lparr>constraintHandler :=
                           ch_update (ext E) me (first (conn w) = None) False parg
                             (constraintHandler w)\<rparr>)
           in case (currentFocus (constraintHandler w1), currentConstraint (constraintHandler w1)) of
                (Some cf, Some cc) \<Rightarrow> updateCurrentState_focus E me cf w1
              | _ \<Rightarrow> updateCurrentState_marker E me point w1))"

section \<open>ConnectionHandler: edge state, icons, waypoints\<close>

definition convertWaypoint :: "env \<Rightarrow> Point \<Rightarrow> Point" where
  "convertWaypoint E point =
     (let sc = scale (view (graph E)); tr = translate (view (graph E))
      in \<lparr>px = px point / sc - px tr, py = py point / sc - py tr\<rparr>)"

text \<open>\<open>updateEdgeState\<close> dereferences \<open>this.edgeState\<close>.\<close>

definition updateEdgeState ::
  "env \<Rightarrow> Point \<Rightarrow> ConnectionConstraint option \<Rightarrow> world \<Rightarrow> unit outcome" where
  "updateEdgeState E current constraint w =
     (let h = conn w; v = view (graph E)
      in case edgeState h of
           None \<Rightarrow> throw TypeError w
         | Some es \<Rightarrow>
             (let es1 = (case sourceConstraint h of
                           None \<Rightarrow> es
                         | Some sc \<Rightarrow>
                             (case cc_point sc of
                                None \<Rightarrow> es
                              | Some p \<Rightarrow> es\<lparr>exitX := Some (px p), exitY := Some (py p)\<rparr>));
                  es2 = (case constraint of
                           None \<Rightarrow> es1\<lparr>entryX := None, entryY := None\<rparr>
                         | Some c \<Rightarrow>
                             (case cc_point c of
                                None \<Rightarrow> es1\<lparr>entryX := None, entryY := None\<rparr>
                              | Some p \<Rightarrow> es1\<lparr>entryX := Some (px p), entryY := Some (py p)\<rparr>));
                  es3 = es2\<lparr>absolutePoints :=
                              [None, if currentState h \<noteq> None then None else Some current]\<rparr>;
                  es4 = updateFixedTerminalPoint v es3 (previous h) True (sourceConstraint h);
                  es5 = (if currentState h \<noteq> None then
                           (let constraint1 =
                                  (if constraint = None
                                   then getConnectionConstraint (graph E) es4 (previous h) False
                                   else constraint)
                            in updateFixedTerminalPoint v
                                 (setAbsoluteTerminalPoint (ext E) None False es4)
                                 (currentState h) False constraint1)
                         else es4);
                  realPoints = map_option (map (convertWaypoint E)) (waypoints h);
                  es6 = updatePoints v es5 realPoints (previous h) (currentState h);
                  es7 = updateFloatingTerminalPoints v es6 (previous h) (currentState h)
              in returns () (w\<lparr>conn := h\<lparr>edgeState := Some es7\<rparr>\<rparr>)))"

definition getConnectImage :: "ConnectionHandler \<Rightarrow> CellState \<Rightarrow> ImageBox option" where
  "getConnectImage h st = connectImage h"

text \<open>\<open>redrawIcons\<close> moves the first icon, an object, in place; the model returns the list.\<close>

definition redrawIcons ::
  "env \<Rightarrow> ImageShape list option \<Rightarrow> CellState option \<Rightarrow> world \<Rightarrow> ImageShape list option \<times> world" where
  "redrawIcons E ics st w =
     (case (ics, st) of
        (Some (i0 # rest), Some s) \<Rightarrow>
          (let pos = getIconPosition (ext E) i0 s;
               i1 = i0\<lparr>bounds := (bounds i0)\<lparr>rx := px pos, ry := py pos\<rparr>\<rparr>
           in (Some (i1 # rest), emit [IconRedraw i1] w))
      | _ \<Rightarrow> (ics, w))"

definition createIcons :: "env \<Rightarrow> CellState \<Rightarrow> world \<Rightarrow> ImageShape list option \<times> world" where
  "createIcons E st w =
     (case getConnectImage (conn w) st of
        None \<Rightarrow> (None, w)
      | Some img \<Rightarrow>
          (let w1 = w\<lparr>conn := (conn w)\<lparr>iconState := Some st\<rparr>\<rparr>;
               ic = \<lparr>icon_oid = fresh_oid (ext E),
                     bounds = \<lparr>rx = 0, ry = 0, rwidth = img_width img,
                               rheight = img_height img\<rparr>\<rparr>
           in redrawIcons E (Some [ic]) (iconState (conn w1)) (emit [IconInit ic] w1)))"

definition updateIcons :: "CellState \<Rightarrow> ImageShape list \<Rightarrow> InternalMouseEvent \<Rightarrow> world \<Rightarrow> world" where
  "updateIcons st ics me w = w"

text \<open>
  \<open>addWaypointForEvent\<close>. When a point is to be added it is rebuilt by \<open>new point(...)\<close>,
  \<open>point\<close> being the local variable that holds a \<open>Point\<close>: a \<open>TypeError\<close>, raised after
  \<open>waypoints\<close> has been initialised.
\<close>

definition addWaypointForEvent :: "env \<Rightarrow> InternalMouseEvent \<Rightarrow> world \<Rightarrow> unit outcome" where
  "addWaypointForEvent E me w =
     (let h = conn w;
          point = convertPoint (browser E) (clientX (evt me)) (clientY (evt me))
      in case first h of
           None \<Rightarrow> throw TypeError w
         | Some f \<Rightarrow>
             (let dx = abs_real (px point - px f);
                  dy = abs_real (py point - py f);
                  addPoint = (waypoints h \<noteq> None \<or>
                              (mouseDownCounter h > 1 \<and>
                               (dx > tolerance (graph E) \<or> dy > tolerance (graph E))))
              in if addPoint then
                   throw TypeError
                     (if waypoints h = None then w\<lparr>conn := h\<lparr>waypoints := Some []\<rparr>\<rparr> else w)
                 else returns () w))"

text \<open>
  \<open>connect\<close> assigns no field of the handler. Under its guard it runs one update of the
  graph model (target creation, \<open>insertEdge\<close>, constraints, geometry, the \<open>CONNECT\<close> event,
  selection), with its own \<open>try\<close>/\<open>catch\<close>; that update is recorded as one effect.
\<close>

definition connect ::
  "env \<Rightarrow> Cell option \<Rightarrow> Cell option \<Rightarrow> MouseEvent \<Rightarrow> Cell option \<Rightarrow> world \<Rightarrow> world" where
  "connect E source target e dropTarget w =
     (if target \<noteq> None \<or> isCreateTarget (conn w) e \<or> allowDanglingEdges (validation (graph E))
      then emit [ConnectEdge source target dropTarget] w
      else w)"

section \<open>ConnectionHandler.mouseDown\<close>

text \<open>The body of the \<open>if\<close> in \<open>mouseDown\<close>: a gesture starts.\<close>

definition mouseDown_start :: "env \<Rightarrow> InternalMouseEvent \<Rightarrow> world \<Rightarrow> InternalMouseEvent outcome" where
  "mouseDown_start E me w =
     (let c = constraintHandler w;
          h = conn w;
          h1 = (case (currentConstraint c, currentFocus c, ch_currentPoint c) of
                  (Some cc, Some cf, Some cp) \<Rightarrow>
                    h\<lparr>sourceConstraint := Some cc, previous := Some cf, first := Some cp\<rparr>
                | _ \<Rightarrow> h\<lparr>first := Some \<lparr>px = getGraphX me, py = getGraphY me\<rparr>\<rparr>);
          h2 = h1\<lparr>edgeState := createEdgeState (ext E) me, mouseDownCounter := 1\<rparr>;
          w2 = w\<lparr>conn := h2\<rparr>
      in and_then
           (if waypointsEnabled h2 \<and> shape h2 = None then
              (case createShape E (w2\<lparr>conn := h2\<lparr>waypoints := None\<rparr>\<rparr>) of
                 (shp, w4) \<Rightarrow>
                   (let w5 = w4\<lparr>conn := (conn w4)\<lparr>shape := shp\<rparr>\<rparr>
                    in case edgeState (conn w5) of
                         None \<Rightarrow> returns () w5
                       | Some es \<Rightarrow>
                           (case shp of
                              None \<Rightarrow> throw TypeError w5
                            | Some s \<Rightarrow>
                                returns ()
                                  (w5\<lparr>conn := (conn w5)\<lparr>shape :=
                                         Some (shape_apply (ext E) es s)\<rparr>\<rparr>))))
            else returns () w2)
           (\<lambda>u w6.
              and_then
                (case (previous (conn w6), edgeState (conn w6)) of
                   (None, Some es) \<Rightarrow>
                     (let pt = getPointForEvent (graph E) (evt me)
                      in case geometry (cell es) of
                           None \<Rightarrow> throw TypeError w6
                         | Some geo \<Rightarrow>
                             returns ()
                               (w6\<lparr>conn := (conn w6)\<lparr>edgeState :=
                                      Some (es\<lparr>cell := (cell es)\<lparr>geometry :=
                                              Some (setTerminalPoint (Some pt) True geo)\<rparr>\<rparr>)\<rparr>\<rparr>))
                 | _ \<Rightarrow> returns () w6)
                (\<lambda>u w7.
                   consume E None me (emit [FireEvent ''start'' (previous (conn w7))] w7))))"

definition mouseDown :: "env \<Rightarrow> InternalMouseEvent \<Rightarrow> world \<Rightarrow> InternalMouseEvent outcome" where
  "mouseDown E me w =
     (let w0 = w\<lparr>conn := (conn w)\<lparr>mouseDownCounter := mouseDownCounter (conn w) + 1\<rparr>\<rparr>
      in and_then
           (if isEnabled (conn w0) \<and> graph_enabled (graph E) \<and> \<not> isConsumed me \<and>
               \<not> isConnecting (conn w0) \<and> isStartEvent (conn w0) (constraintHandler w0) me
            then mouseDown_start E me w0
            else returns me w0)
           (\<lambda>me1 w1.
              returns me1
                (w1\<lparr>conn := (conn w1)\<lparr>selectedIcon := icon (conn w1), icon := None\<rparr>\<rparr>)))"

section \<open>ConnectionHandler.mouseMove\<close>

text \<open>
  The local variables of the preview part of \<open>mouseMove\<close>. \<open>current\<close> and \<open>pt2\<close> may be
  \<open>null\<close> entries read off the edge state. Points are objects changed in place:
  \<open>fr_cur_is_point\<close> says that \<open>current\<close> is the object \<open>point\<close> (which is also
  \<open>this.currentPoint\<close>), \<open>fr_cur_in_edge\<close> that it is the last absolute point of the edge
  state, \<open>fr_shared\<close> that \<open>point\<close> is also \<open>constraintHandler.currentPoint\<close>.
\<close>

record preview_frame =
  fr_point :: Point
  fr_current :: "Point option"
  fr_pt2 :: "Point option"
  fr_cur_is_point :: bool
  fr_cur_in_edge :: bool
  fr_shared :: bool

definition same_icon :: "ImageShape \<Rightarrow> ImageShape \<Rightarrow> ImageShape \<Rightarrow> ImageShape" where
  "same_icon old new i = (if icon_oid i = icon_oid old then new else i)"

text \<open>Moves the connect icon with the mouse. The selected icon is an object: the model
  rewrites it wherever the handler holds it.\<close>

definition move_selectedIcon :: "env \<Rightarrow> InternalMouseEvent \<Rightarrow> world \<Rightarrow> world" where
  "move_selectedIcon E me w =
     (let h = conn w
      in case selectedIcon h of
           None \<Rightarrow> w
         | Some si \<Rightarrow>
             (let wd = rwidth (bounds si);
                  ht = rheight (bounds si);
                  away = si\<lparr>bounds := \<lparr>rx = getGraphX me + px (connectIconOffset h),
                                         ry = getGraphY me + py (connectIconOffset h),
                                         rwidth = wd, rheight = ht\<rparr>\<rparr>;
                  si1 = (case currentState h of
                           None \<Rightarrow> away
                         | Some cs \<Rightarrow>
                             if targetConnectImage h then
                               (let pos = getIconPosition (ext E) si cs
                                in si\<lparr>bounds := (bounds si)\<lparr>rx := px pos, ry := py pos\<rparr>\<rparr>)
                             else away)
              in emit [IconRedraw si1]
                   (w\<lparr>conn := h\<lparr>selectedIcon := Some si1,
                                 icons := map_option (map (same_icon si si1)) (icons h),
                                 icon := map_option (same_icon si si1) (icon h)\<rparr>\<rparr>)))"

text \<open>Writes a point changed in place into every place that holds the object.\<close>

definition write_point :: "preview_frame \<Rightarrow> Point \<Rightarrow> world \<Rightarrow> world" where
  "write_point fr p w =
     (let w1 = (if fr_cur_is_point fr
                then w\<lparr>conn := (conn w)\<lparr>currentPoint := Some p\<rparr>\<rparr> else w);
          w2 = (if fr_cur_is_point fr \<and> fr_shared fr
                then w1\<lparr>constraintHandler := (constraintHandler w1)\<lparr>ch_currentPoint := Some p\<rparr>\<rparr>
                else w1)
      in if fr_cur_in_edge fr then
           w2\<lparr>conn := (conn w2)\<lparr>edgeState :=
                 map_option (\<lambda>es. es\<lparr>absolutePoints :=
                               (if absolutePoints es = [] then []
                                else butlast (absolutePoints es) @ [Some p])\<rparr>)
                   (edgeState (conn w2))\<rparr>\<rparr>
         else w2)"

text \<open>
  The choice of \<open>current\<close>: the constraint handler's point when it has a constraint, a
  focus and a point; otherwise the mouse point, moved onto an axis through the source's
  centre when shift is down.
\<close>

definition preview_pick ::
  "env \<Rightarrow> InternalMouseEvent \<Rightarrow> Point \<Rightarrow> bool \<Rightarrow> world \<Rightarrow>
   ConnectionConstraint option \<times> preview_frame \<times> world" where
  "preview_pick E me point shared w =
     (let h = conn w;
          c = constraintHandler w;
          fr0 = \<lparr>fr_point = point, fr_current = Some point, fr_pt2 = first h,
                 fr_cur_is_point = True, fr_cur_in_edge = False, fr_shared = shared\<rparr>
      in case (currentConstraint c, currentFocus c, ch_currentPoint c) of
           (Some cc, Some cf, Some cp) \<Rightarrow>
             (Some cc, fr0\<lparr>fr_current := Some cp, fr_cur_is_point := False\<rparr>, w)
         | _ \<Rightarrow>
             (case previous h of
                None \<Rightarrow> (None, fr0, w)
              | Some prev \<Rightarrow>
                  if \<not> isIgnoreTerminalEvent (graph E) (evt me) \<and> shiftDown (evt me) then
                    (let p1 = (if abs_real (centerX prev - px point)
                                  < abs_real (centerY prev - py point)
                               then point\<lparr>px := centerX prev\<rparr>
                               else point\<lparr>py := centerY prev\<rparr>);
                         fr1 = fr0\<lparr>fr_point := p1, fr_current := Some p1\<rparr>
                     in (None, fr1, write_point fr1 p1 w))
                  else (None, fr0, w)))"

text \<open>With an edge state the terminal points are read off its absolute points.\<close>

definition preview_edge_points ::
  "env \<Rightarrow> ConnectionConstraint option \<Rightarrow> preview_frame \<Rightarrow> world \<Rightarrow> preview_frame outcome" where
  "preview_edge_points E constraint fr w =
     (case fr_current fr of
        None \<Rightarrow> throw TypeError w
      | Some cur \<Rightarrow>
          and_then (updateEdgeState E cur constraint w)
            (\<lambda>u w3.
               (let aps = (case edgeState (conn w3) of
                             None \<Rightarrow> [] | Some es3 \<Rightarrow> absolutePoints es3)
                in returns
                     (fr\<lparr>fr_current := (if aps = [] then None else last aps),
                         fr_pt2 := (if aps = [] then None else hd aps),
                         fr_cur_is_point := (fr_cur_is_point fr \<and> keeps_current_object (ext E)),
                         fr_cur_in_edge := True\<rparr>)
                     w3)))"

text \<open>Without an edge state they are the perimeter points of target and source.\<close>

definition preview_target_point ::
  "env \<Rightarrow> InternalMouseEvent \<Rightarrow> preview_frame \<Rightarrow> world \<Rightarrow> preview_frame outcome" where
  "preview_target_point E me fr w =
     (case currentState (conn w) of
        None \<Rightarrow> returns fr w
      | Some cs \<Rightarrow>
          if currentConstraint (constraintHandler w) = None then
            (case getTargetPerimeterPoint E (conn w) cs me of
               Inl e \<Rightarrow> throw e w
             | Inr None \<Rightarrow> returns fr w
             | Inr (Some tmp) \<Rightarrow>
                 returns (fr\<lparr>fr_current := Some tmp, fr_cur_is_point := False\<rparr>) w)
          else returns fr w)"

definition preview_source_point ::
  "env \<Rightarrow> InternalMouseEvent \<Rightarrow> preview_frame \<Rightarrow> world \<Rightarrow> preview_frame" where
  "preview_source_point E me fr w =
     (case (sourceConstraint (conn w), previous (conn w), fr_current fr) of
        (None, Some prev, Some cur) \<Rightarrow>
          (let next = (case waypoints (conn w) of
                         Some (wp # wps) \<Rightarrow> wp
                       | _ \<Rightarrow> cur)
           in case getSourcePerimeterPoint E prev next me of
                None \<Rightarrow> fr
              | Some tmp \<Rightarrow> fr\<lparr>fr_pt2 := Some tmp\<rparr>)
      | _ \<Rightarrow> fr)"

text \<open>From the choice of \<open>current\<close> to the terminal points \<open>current\<close> and \<open>pt2\<close>.\<close>

definition preview_terminals ::
  "env \<Rightarrow> InternalMouseEvent \<Rightarrow> Point \<Rightarrow> bool \<Rightarrow> world \<Rightarrow> preview_frame outcome" where
  "preview_terminals E me point shared w =
     (case preview_pick E me point shared w of
        (constraint, fr, w1) \<Rightarrow>
          (let w2 = move_selectedIcon E me w1
           in case edgeState (conn w2) of
                Some es \<Rightarrow> preview_edge_points E constraint fr w2
              | None \<Rightarrow>
                  and_then (preview_target_point E me fr w2)
                    (\<lambda>fr2 w3. returns (preview_source_point E me fr2 w3) w3)))"

text \<open>
  Moving the preview away from the pointer. The result \<open>None\<close> is the \<open>return\<close> taken when
  the distance is \<open>0\<close>.
\<close>

definition preview_away :: "preview_frame \<Rightarrow> world \<Rightarrow> preview_frame option outcome" where
  "preview_away fr w =
     (let h = conn w
      in if currentState h = None \<and> movePreviewAway h then
           (let tmp = (case edgeState h of
                         None \<Rightarrow> fr_pt2 fr
                       | Some es \<Rightarrow>
                           if length (absolutePoints es) \<ge> 2 then
                             (case absolutePoints es ! (length (absolutePoints es) - 2) of
                                None \<Rightarrow> fr_pt2 fr
                              | Some tmp2 \<Rightarrow> Some tmp2)
                           else fr_pt2 fr)
            in case (fr_current fr, tmp) of
                 (Some cur, Some t) \<Rightarrow>
                   (let dx = px cur - px t;
                        dy = py cur - py t;
                        len = sqrt (dx * dx + dy * dy)
                    in if len = 0 then returns None w
                       else
                         (let moved = \<lparr>px = px cur - (dx * 4) / len, py = py cur - (dy * 4) / len\<rparr>;
                              w1 = w\<lparr>conn := h\<lparr>originalPoint := Some cur\<rparr>\<rparr>
                          in returns
                               (Some (fr\<lparr>fr_current := Some moved,
                                         fr_point := (if fr_cur_is_point fr then moved
                                                      else fr_point fr)\<rparr>))
                               (write_point fr moved w1)))
               | _ \<Rightarrow> throw TypeError w)
         else returns (Some fr) (w\<lparr>conn := h\<lparr>originalPoint := None\<rparr>\<rparr>))"

text \<open>The lazy creation of the preview shape, the update of its points, the redraw.\<close>

definition preview_shape ::
  "env \<Rightarrow> InternalMouseEvent \<Rightarrow> preview_frame \<Rightarrow> world \<Rightarrow> InternalMouseEvent outcome" where
  "preview_shape E me fr w =
     and_then
       (case shape (conn w) of
          Some s \<Rightarrow> returns () w
        | None \<Rightarrow>
            (case first (conn w) of
               None \<Rightarrow> throw TypeError w
             | Some f \<Rightarrow>
                 (let dx = abs_real (getGraphX me - px f);
                      dy = abs_real (getGraphY me - py f)
                  in if dx > tolerance (graph E) \<or> dy > tolerance (graph E) then
                       (case createShape E w of
                          (shp, w1) \<Rightarrow>
                            (let w2 = w1\<lparr>conn := (conn w1)\<lparr>shape := shp\<rparr>\<rparr>
                             in and_then
                                  (case edgeState (conn w2) of
                                     None \<Rightarrow> returns () w2
                                   | Some es \<Rightarrow>
                                       (case shp of
                                          None \<Rightarrow> throw TypeError w2
                                        | Some s \<Rightarrow>
                                            returns ()
                                              (w2\<lparr>conn := (conn w2)\<lparr>shape :=
                                                     Some (shape_apply (ext E) es s)\<rparr>\<rparr>)))
                                  (\<lambda>u w3.
                                     and_then (updateCurrentState E me (fr_point fr) w3)
                                       (\<lambda>sh w4. returns () w4))))
                     else returns () w)))
       (\<lambda>u w5.
          and_then
            (case shape (conn w5) of
               None \<Rightarrow> returns () w5
             | Some s \<Rightarrow>
                 (let pts = (case edgeState (conn w5) of
                               Some es \<Rightarrow> absolutePoints es
                             | None \<Rightarrow>
                                 fr_pt2 fr #
                                 map Some (case waypoints (conn w5) of
                                             None \<Rightarrow> [] | Some wps \<Rightarrow> wps) @
                                 [fr_current fr])
                  in drawPreview (w5\<lparr>conn := (conn w5)\<lparr>shape := Some (s\<lparr>sh_points := pts\<rparr>)\<rparr>\<rparr>)))
            (\<lambda>u w6.
               (let w7 = (case cursor (conn w6) of
                            None \<Rightarrow> w6 | Some cu \<Rightarrow> emit [ContainerCursor cu] w6)
                in consume E None me (emit [NativeConsume] w7))))"

text \<open>
  The first part of \<open>mouseMove\<close> for an event that is handled: the mouse point is
  computed and stored in \<open>this.currentPoint\<close>. With grid snapping enabled for the event the
  snapped point is written \<open>new point(...)\<close>, where \<open>point\<close> is the local variable that
  holds the \<open>Point\<close> just built: evaluating it raises a \<open>TypeError\<close>.
\<close>

definition mouseMove_point :: "env \<Rightarrow> InternalMouseEvent \<Rightarrow> world \<Rightarrow> Point outcome" where
  "mouseMove_point E me w =
     (let w1 = (if \<not> isEnabled (conn w) \<and> currentState (conn w) \<noteq> None then
                  (let wd = destroyIcons w in wd\<lparr>conn := (conn wd)\<lparr>currentState := None\<rparr>\<rparr>)
                else w);
          point0 = \<lparr>px = getGraphX me, py = getGraphY me\<rparr>;
          w2 = w1\<lparr>conn := (conn w1)\<lparr>error := None\<rparr>\<rparr>
      in if isGridEnabledEvent (graph E) (evt me) then throw TypeError w2
         else
           (case snapToPreview E (conn w2) me point0 of
              Inl e \<Rightarrow> throw e w2
            | Inr point \<Rightarrow> returns point (w2\<lparr>conn := (conn w2)\<lparr>currentPoint := Some point\<rparr>\<rparr>)))"

text \<open>
  The second part: the current state is updated unless the gesture has not left the
  tolerance around its first point.
\<close>

definition mouseMove_update ::
  "env \<Rightarrow> InternalMouseEvent \<Rightarrow> Point \<Rightarrow> world \<Rightarrow> bool outcome" where
  "mouseMove_update E me point w =
     (let h = conn w; g = graph E
      in if (first h \<noteq> None \<or> (isEnabled h \<and> graph_enabled g)) \<and>
            (shape h \<noteq> None \<or>
             (case first h of
                None \<Rightarrow> True
              | Some f \<Rightarrow>
                  abs_real (getGraphX me - px f) > tolerance g \<or>
                  abs_real (getGraphY me - py f) > tolerance g))
         then updateCurrentState E me point w
         else returns False w)"

text \<open>
  The branch for an active gesture (\<open>first\<close> set). The flag of the result says whether the
  end of \<open>mouseMove\<close> is reached: it is not when the preview part returns early.
\<close>

definition mouseMove_preview ::
  "env \<Rightarrow> InternalMouseEvent \<Rightarrow> Point \<Rightarrow> bool \<Rightarrow> world \<Rightarrow> (bool \<times> InternalMouseEvent) outcome" where
  "mouseMove_preview E me point shared w =
     and_then (preview_terminals E me point shared w)
       (\<lambda>fr w5.
          and_then (preview_away fr w5)
            (\<lambda>r w6.
               case r of
                 None \<Rightarrow> returns (False, me) w6
               | Some fr1 \<Rightarrow>
                   and_then (preview_shape E me fr1 w6)
                     (\<lambda>me1 w7. returns (True, me1) w7)))"

text \<open>The branches without an active gesture: the icons of the state under the mouse.\<close>

definition mouseMove_hover ::
  "env \<Rightarrow> InternalMouseEvent \<Rightarrow> world \<Rightarrow> InternalMouseEvent outcome" where
  "mouseMove_hover E me w =
     (let g = graph E
      in if \<not> isEnabled (conn w) \<or> \<not> graph_enabled g then
           returns me (reset_constraintHandler E w)
         else if \<not> same_state (previous (conn w)) (currentState (conn w)) \<and>
                 edgeState (conn w) = None then
           (let wd = destroyIcons w
            in and_then
                 (case currentState (conn wd) of
                    None \<Rightarrow> returns me wd
                  | Some cs \<Rightarrow>
                      if error (conn wd) = None \<and>
                         currentConstraint (constraintHandler wd) = None then
                        (case createIcons E cs wd of
                           (ics, wi) \<Rightarrow>
                             (let wj = wi\<lparr>conn := (conn wi)\<lparr>icons := ics\<rparr>\<rparr>
                              in if ics = None then
                                   consume E None me (emit [StateCursor cs CURSOR_CONNECT] wj)
                                 else returns me wj))
                      else returns me wd)
                 (\<lambda>me2 wk.
                    returns me2 (wk\<lparr>conn := (conn wk)\<lparr>previous := currentState (conn wk)\<rparr>\<rparr>)))
         else if same_state (previous (conn w)) (currentState (conn w)) \<and>
                 currentState (conn w) \<noteq> None \<and> icons (conn w) = None \<and>
                 \<not> isMouseDown g then
           consume E None me w
         else returns me w)"

text \<open>The last part: the hook \<open>updateIcons\<close> runs unless the event hits an icon.\<close>

definition mouseMove_icons :: "env \<Rightarrow> InternalMouseEvent \<Rightarrow> world \<Rightarrow> world" where
  "mouseMove_icons E me w =
     (case (currentState (conn w), icons (conn w)) of
        (Some cs, Some ics) \<Rightarrow>
          if \<not> isMouseDown (graph E) \<and> \<not> list_ex (hitsIconNode (browser E) (evt me)) ics
          then updateIcons cs ics me w
          else w
      | _ \<Rightarrow> w)"

definition mouseMove_handled :: "env \<Rightarrow> InternalMouseEvent \<Rightarrow> world \<Rightarrow> InternalMouseEvent outcome" where
  "mouseMove_handled E me w =
     and_then (mouseMove_point E me w)
       (\<lambda>point w3.
          and_then (mouseMove_update E me point w3)
            (\<lambda>shared w4.
               and_then
                 (if first (conn w4) \<noteq> None then mouseMove_preview E me point shared w4
                  else and_then (mouseMove_hover E me w4)
                         (\<lambda>me2 w5. returns (True, me2) w5))
                 (\<lambda>r w8.
                    case r of
                      (finished, me3) \<Rightarrow>
                        if finished then returns me3 (mouseMove_icons E me3 w8)
                        else returns me3 w8)))"

definition mouseMove :: "env \<Rightarrow> InternalMouseEvent \<Rightarrow> world \<Rightarrow> InternalMouseEvent outcome" where
  "mouseMove E me w =
     (if \<not> isConsumed me \<and>
         (ignoreMouseDown (conn w) \<or> first (conn w) \<noteq> None \<or> \<not> isMouseDown (graph E))
      then mouseMove_handled E me w
      else returns me (reset_constraintHandler E w))"

section \<open>ConnectionHandler.mouseUp\<close>

text \<open>The body of the first \<open>if\<close> of \<open>mouseUp\<close> behind the waypoint branch: the gesture ends.\<close>

definition mouseUp_finish :: "env \<Rightarrow> InternalMouseEvent \<Rightarrow> world \<Rightarrow> InternalMouseEvent outcome" where
  "mouseUp_finish E me w =
     (let h = conn w;
          c = constraintHandler w;
          c1 = sourceConstraint h;
          c2 = currentConstraint c;
          source = map_option cell (previous h);
          target0 = (case (currentConstraint c, currentFocus c) of
                       (Some cc, Some cf) \<Rightarrow> Some (cell cf)
                     | _ \<Rightarrow> None);
          target = (case (target0, currentState h) of
                      (None, Some cs) \<Rightarrow> Some (cell cs)
                    | _ \<Rightarrow> target0);
          w1 = (if error h = None \<and>
                   (source = None \<or> target = None \<or> \<not> same_cell source target \<or>
                    checkConstraints c1 c2)
                then connect E source target (evt me) (getCell me) w
                else
                  (let ws = (case (previous h, validState (marker w)) of
                               (Some prev, Some vs) \<Rightarrow>
                                 if cell_oid (cell prev) = cell_oid (cell vs)
                                 then emit [SelectCellForEvent (marker_source (marker w))] w
                                 else w
                             | _ \<Rightarrow> w)
                   in case error h of
                        Some msg \<Rightarrow>
                          if length msg > 0
                          then ws\<lparr>effects := validationAlert (Some msg) (effects ws)\<rparr>
                          else ws
                      | None \<Rightarrow> ws));
          w2 = destroyIcons w1
      in consume E None me w2)"

definition mouseUp :: "env \<Rightarrow> InternalMouseEvent \<Rightarrow> world \<Rightarrow> InternalMouseEvent outcome" where
  "mouseUp E me w =
     (if \<not> isConsumed me \<and> isConnecting (conn w) \<and>
         waypointsEnabled (conn w) \<and> \<not> isStopEvent me then
        and_then (addWaypointForEvent E me w) (\<lambda>u w1. consume E None me w1)
      else
        and_then
          (if \<not> isConsumed me \<and> isConnecting (conn w) then mouseUp_finish E me w
           else returns me w)
          (\<lambda>me1 w1.
             if first (conn w1) \<noteq> None then returns me1 (reset E w1)
             else returns me1 w1))"

section \<open>TextShape.updateBoundingBox\<close>

text \<open>
  The label's DOM node as \<open>updateBoundingBox\<close> sees it: whether its first grandchild is a
  \<open>foreignObject\<close>, the offset width and height of the inner \<open>div\<close> measured in that case
  (\<open>None\<close> when the \<open>div\<close> is missing), and what \<open>getBBox()\<close> does: it returns a box or
  raises (Firefox raises \<open>NS_ERROR_FAILURE\<close> when the container is not displayed).
\<close>

record TextNode =
  has_foreignObject :: bool
  inner_div :: "(real \<times> real) option"
  getBBox :: "js_error + Rectangle"

datatype text_value = StringValue string | ElementValue | NullValue

record TextShape =
  ts_value :: text_value
  ts_bounds :: Rectangle
  boundingBox :: "Rectangle option"
  unrotatedBoundingBox :: "Rectangle option"
  margin :: "Point option"
  ignoreStringSize :: bool
  overflow :: string
  clipped :: bool
  ignoreClippedStringSize :: bool
  ts_scale :: real
  labelPosition :: "string option"
  verticalLabelPosition :: "string option"
  node :: "TextNode option"
  textRotation :: real

text \<open>
  What \<open>updateBoundingBox\<close> imports: \<open>trim\<close> of \<open>StringUtils\<close>, \<open>getBoundingBox\<close> of
  \<open>Utils\<close>, and the two alignment constants.
\<close>

record TextImports =
  trim :: "string \<Rightarrow> string"
  getBoundingBox :: "Rectangle \<Rightarrow> real \<Rightarrow> Point \<Rightarrow> Rectangle"
  ALIGN_CENTER :: "string option"
  ALIGN_MIDDLE :: "string option"

text \<open>Truthiness of a nullable number: \<open>null\<close> and \<open>0\<close> are falsy.\<close>

definition truthy_num :: "real option \<Rightarrow> bool" where
  "truthy_num v = (case v of None \<Rightarrow> False | Some r \<Rightarrow> r \<noteq> 0)"

text \<open>The last part of \<open>updateBoundingBox\<close>: the margin and the rotation are applied.\<close>

definition apply_margin :: "TextImports \<Rightarrow> TextShape \<Rightarrow> js_error + TextShape" where
  "apply_margin I ts =
     (case boundingBox ts of
        None \<Rightarrow> Inr ts
      | Some bb \<Rightarrow>
          (case margin ts of
             None \<Rightarrow> Inl TypeError
           | Some m \<Rightarrow>
               if textRotation ts \<noteq> 0 then
                 (let bbox = getBoundingBox I
                               \<lparr>rx = px m * rwidth bb, ry = py m * rheight bb,
                                rwidth = rwidth bb, rheight = rheight bb\<rparr>
                               (textRotation ts) \<lparr>px = 0, py = 0\<rparr>;
                      ub = bb\<lparr>rx := rx bb + px m * rwidth bb, ry := ry bb + py m * rheight bb\<rparr>
                  in Inr (ts\<lparr>unrotatedBoundingBox := Some ub,
                             boundingBox := Some \<lparr>rx = rx bb + rx bbox, ry = ry bb + ry bbox,
                                                  rwidth = rwidth bbox, rheight = rheight bbox\<rparr>\<rparr>))
               else
                 Inr (ts\<lparr>boundingBox := Some (bb\<lparr>rx := rx bb + px m * rwidth bb,
                                                   ry := ry bb + py m * rheight bb\<rparr>),
                         unrotatedBoundingBox := None\<rparr>)))"

text \<open>
  The \<open>try\<close> block around \<open>node.getBBox()\<close>: \<open>Some\<close> of the shape when the block reaches its
  \<open>return\<close>, \<open>None\<close> when an exception was caught and execution goes on behind the block.
\<close>

definition measure_bbox :: "TextImports \<Rightarrow> TextNode \<Rightarrow> TextShape \<Rightarrow> TextShape option" where
  "measure_bbox I n ts =
     (case getBBox n of
        Inl e \<Rightarrow> None
      | Inr b \<Rightarrow>
          Some (if (case ts_value ts of
                      StringValue s \<Rightarrow> length (trim I s) = 0
                    | _ \<Rightarrow> False)
                then ts\<lparr>boundingBox := None\<rparr>
                else if rwidth b = 0 \<and> rheight b = 0 then ts\<lparr>boundingBox := None\<rparr>
                else ts\<lparr>boundingBox := Some \<lparr>rx = rx b, ry = ry b, rwidth = rwidth b,
                                               rheight = rheight b\<rparr>\<rparr>))"

definition updateBoundingBox :: "TextImports \<Rightarrow> TextShape \<Rightarrow> js_error + TextShape" where
  "updateBoundingBox I ts0 =
     (let ts = ts0\<lparr>boundingBox := Some (ts_bounds ts0)\<rparr>;
          h = (case labelPosition ts of None \<Rightarrow> ALIGN_CENTER I | Some v \<Rightarrow> Some v);
          v = (case verticalLabelPosition ts of None \<Rightarrow> ALIGN_MIDDLE I | Some v \<Rightarrow> Some v)
      in case node ts of
           None \<Rightarrow> apply_margin I ts
         | Some n \<Rightarrow>
             if \<not> ignoreStringSize ts \<and> overflow ts \<noteq> ''fill'' \<and>
                (\<not> clipped ts \<or> \<not> ignoreClippedStringSize ts \<or>
                 h \<noteq> ALIGN_CENTER I \<or> v \<noteq> ALIGN_MIDDLE I) then
               (if has_foreignObject n then
                  (case inner_div n of
                     None \<Rightarrow> Inl TypeError
                   | Some (offsetWidth, offsetHeight) \<Rightarrow>
                       (let oh = Some (offsetHeight * ts_scale ts);
                            ow = (if overflow ts = ''width''
                                  then map_option rwidth (boundingBox ts)
                                  else Some (offsetWidth * ts_scale ts))
                        in case (ow, oh) of
                             (Some wd, Some ht) \<Rightarrow>
                               if truthy_num ow \<and> truthy_num oh then
                                 apply_margin I
                                   (ts\<lparr>boundingBox :=
                                         Some \<lparr>rx = rx (ts_bounds ts), ry = ry (ts_bounds ts),
                                               rwidth = wd, rheight = ht\<rparr>\<rparr>)
                               else apply_margin I ts
                           | _ \<Rightarrow> apply_margin I ts))
                else
                  (case measure_bbox I n ts of
                     Some ts1 \<Rightarrow> Inr ts1
                   | None \<Rightarrow> apply_margin I ts))
             else apply_margin I ts)"

section \<open>Observations used in the properties\<close>

text \<open>An effect that is a run of \<open>connect\<close>'s model update, and one that is an \<open>alert\<close>.\<close>

fun is_connect :: "effect \<Rightarrow> bool" where
  "is_connect (ConnectEdge s t d) = True"
| "is_connect e = False"

fun is_alert :: "effect \<Rightarrow> bool" where
  "is_alert (Alert m) = True"
| "is_alert e = False"

text \<open>The world an operation leaves, whether it returns or raises.\<close>

definition world_left :: "'a outcome \<Rightarrow> world" where
  "world_left r = (case r of Inl (e, w) \<Rightarrow> w | Inr (a, w) \<Rightarrow> w)"

text \<open>
  The state \<open>reset\<close> is said to establish: \<open>shape\<close>, \<open>originalPoint\<close>, \<open>currentPoint\<close>,
  \<open>edgeState\<close>, \<open>previous\<close>, \<open>error\<close>, \<open>sourceConstraint\<close> and \<open>first\<close> are \<open>null\<close> and
  \<open>mouseDownCounter\<close> is \<open>0\<close>.
\<close>

definition in_reset_state :: "ConnectionHandler \<Rightarrow> bool" where
  "in_reset_state h \<longleftrightarrow>
     shape h = None \<and> originalPoint h = None \<and> currentPoint h = None \<and> edgeState h = None \<and>
     previous h = None \<and> error h = None \<and> sourceConstraint h = None \<and> first h = None \<and>
     mouseDownCounter h = 0"

text \<open>
  The test of the waypoint branch of \<open>mouseUp\<close>: the event is not consumed, a connection is
  previewed, waypoints are enabled and no cell state is under the event.
\<close>

definition waypoint_branch :: "InternalMouseEvent \<Rightarrow> world \<Rightarrow> bool" where
  "waypoint_branch me w \<longleftrightarrow>
     \<not> isConsumed me \<and> isConnecting (conn w) \<and> waypointsEnabled (conn w) \<and> \<not> isStopEvent me"

text \<open>
  The \<open>mouseUp\<close> that ends a connection gesture: the event is not consumed, a connection
  is previewed, and the event is not a waypoint click.
\<close>

definition gesture_end :: "InternalMouseEvent \<Rightarrow> world \<Rightarrow> bool" where
  "gesture_end me w \<longleftrightarrow>
     \<not> isConsumed me \<and> isConnecting (conn w) \<and>
     \<not> (waypointsEnabled (conn w) \<and> \<not> isStopEvent me)"

text \<open>
  Relations between the handler before and after an operation: only \<open>error\<close> and
  \<open>currentState\<close> differ; only the icons and the points \<open>currentPoint\<close> and
  \<open>originalPoint\<close> differ; the fields that describe the gesture are the same.
\<close>

definition only_target_changed :: "ConnectionHandler \<Rightarrow> ConnectionHandler \<Rightarrow> bool" where
  "only_target_changed h h1 \<longleftrightarrow> h1 = h\<lparr>error := error h1, currentState := currentState h1\<rparr>"

definition only_icons_and_point_changed :: "ConnectionHandler \<Rightarrow> ConnectionHandler \<Rightarrow> bool" where
  "only_icons_and_point_changed h h1 \<longleftrightarrow>
     h1 = h\<lparr>selectedIcon := selectedIcon h1, icons := icons h1, icon := icon h1,
            currentPoint := currentPoint h1, originalPoint := originalPoint h1\<rparr>"

definition same_gesture :: "ConnectionHandler \<Rightarrow> ConnectionHandler \<Rightarrow> bool" where
  "same_gesture h h1 \<longleftrightarrow>
     first h1 = first h \<and> shape h1 = shape h \<and> edgeState h1 = edgeState h \<and>
     waypoints h1 = waypoints h \<and> sourceConstraint h1 = sourceConstraint h \<and>
     previous h1 = previous h \<and> movePreviewAway h1 = movePreviewAway h \<and> cursor h1 = cursor h"

text \<open>
  A mouse move during an active gesture with a preview shape and no edge state: the event is
  not consumed, \<open>first\<close> and \<open>shape\<close> are set, \<open>edgeState\<close> is \<open>null\<close>.
\<close>

definition preview_active :: "InternalMouseEvent \<Rightarrow> world \<Rightarrow> bool" where
  "preview_active me w \<longleftrightarrow>
     \<not> isConsumed me \<and> first (conn w) \<noteq> None \<and> shape (conn w) \<noteq> None \<and>
     edgeState (conn w) = None"

text \<open>The waypoints in order, none when \<open>waypoints\<close> is \<open>null\<close>.\<close>

definition waypoint_list :: "ConnectionHandler \<Rightarrow> Point list" where
  "waypoint_list h = (case waypoints h of None \<Rightarrow> [] | Some wps \<Rightarrow> wps)"

text \<open>
  The terminal points of the preview, as the text of \<open>mouseMove\<close> computes them when there
  is no edge state, written as functions of the handler \<open>h\<close> at the call, the mouse point
  \<open>point\<close>, and the constraint handler \<open>c\<close> and the target state \<open>tgt\<close> that
  \<open>updateCurrentState\<close> leaves.

  The point of the constraint handler, if it has a constraint, a focus and a point.
\<close>

definition constrained_point :: "ConstraintHandler \<Rightarrow> Point option" where
  "constrained_point c =
     (case (currentConstraint c, currentFocus c, ch_currentPoint c) of
        (Some cc, Some cf, Some cp) \<Rightarrow> Some cp
      | _ \<Rightarrow> None)"

text \<open>
  The mouse point, moved with the shift key onto the nearer of the two axes through the
  centre of the source.
\<close>

definition axis_point :: "env \<Rightarrow> InternalMouseEvent \<Rightarrow> ConnectionHandler \<Rightarrow> Point \<Rightarrow> Point" where
  "axis_point E me h point =
     (case previous h of
        None \<Rightarrow> point
      | Some prev \<Rightarrow>
          if \<not> isIgnoreTerminalEvent (graph E) (evt me) \<and> shiftDown (evt me) then
            (if \<bar>centerX prev - px point\<bar> < \<bar>centerY prev - py point\<bar>
             then \<lparr>px = centerX prev, py = py point\<rparr>
             else \<lparr>px = px point, py = centerY prev\<rparr>)
          else point)"

text \<open>
  The current point before the preview is moved away from the pointer: the constraint
  handler's point or else the mouse point, replaced by the perimeter point of a target state
  that has no constraint.
\<close>

definition target_end ::
  "env \<Rightarrow> InternalMouseEvent \<Rightarrow> ConnectionHandler \<Rightarrow> CellState option \<Rightarrow> ConstraintHandler \<Rightarrow>
   Point \<Rightarrow> Point" where
  "target_end E me h tgt c point =
     (let cur = (case constrained_point c of
                   Some cp \<Rightarrow> cp
                 | None \<Rightarrow> axis_point E me h point)
      in case tgt of
           None \<Rightarrow> cur
         | Some cs \<Rightarrow>
             if currentConstraint c = None then
               (case getTargetPerimeterPoint E h cs me of
                  Inr (Some tmp) \<Rightarrow> tmp
                | _ \<Rightarrow> cur)
             else cur)"

text \<open>
  The source point \<open>pt2\<close>: the first point \<open>f\<close> of the gesture, or the perimeter point of a
  source without constraint, taken towards the first waypoint or else the current point.
\<close>

definition source_end ::
  "env \<Rightarrow> InternalMouseEvent \<Rightarrow> ConnectionHandler \<Rightarrow> Point \<Rightarrow> Point \<Rightarrow> Point" where
  "source_end E me h f cur =
     (case (sourceConstraint h, previous h) of
        (None, Some prev) \<Rightarrow>
          (case getSourcePerimeterPoint E prev
                  (case waypoints h of Some (wp # wps) \<Rightarrow> wp | _ \<Rightarrow> cur) me of
             None \<Rightarrow> f
           | Some tmp \<Rightarrow> tmp)
      | _ \<Rightarrow> f)"

text \<open>
  The distance of two points, and the point \<open>cur\<close> moved by \<open>4\<close> units towards \<open>tmp\<close>.
\<close>

definition distance :: "Point \<Rightarrow> Point \<Rightarrow> real" where
  "distance tmp cur =
     sqrt ((px cur - px tmp) * (px cur - px tmp) + (py cur - py tmp) * (py cur - py tmp))"

definition moved_away :: "Point \<Rightarrow> Point \<Rightarrow> Point" where
  "moved_away tmp cur =
     \<lparr>px = px cur - ((px cur - px tmp) * 4) / distance tmp cur,
      py = py cur - ((py cur - py tmp) * 4) / distance tmp cur\<rparr>"

text \<open>
  The preview is moved away from the pointer when \<open>movePreviewAway\<close> is set and there is
  no target state.
\<close>

definition moves_away :: "ConnectionHandler \<Rightarrow> CellState option \<Rightarrow> bool" where
  "moves_away h tgt \<longleftrightarrow> movePreviewAway h \<and> tgt = None"

text \<open>
  Between two worlds calls were only added to the record, and none of them redraws the
  preview shape.
\<close>

definition no_redraw :: "world \<Rightarrow> world \<Rightarrow> bool" where
  "no_redraw w w1 \<longleftrightarrow>
     prefix (effects w) (effects w1) \<and>
     ShapeRedraw \<notin> set (drop (length (effects w)) (effects w1))"

section \<open>Concrete inputs\<close>

text \<open>A graph without multiplicity rules that forbids dangling edges and loops.\<close>

definition gv0 :: GraphValidation where
  "gv0 = \<lparr>allowDanglingEdges = False, allowLoops = False, multigraph = True,
          alreadyConnectedResource = ''alreadyConnected'', multiplicities = Some [],
          isValidConnection = (\<lambda>s t. True), getEdgesBetween = (\<lambda>s t. []),
          getDirectedEdgeCount = (\<lambda>c out ex. 0), Resources_get = (\<lambda>k. None)\<rparr>"

text \<open>
  A view at scale \<open>1\<close> without translation and without perimeter functions, a graph with
  grid size \<open>10\<close> and tolerance \<open>4\<close> whose grid is switched off, a page where nothing is
  hit, and collaborators that find no focus and no cell.
\<close>

definition view0 :: GraphView where
  "view0 = \<lparr>scale = 1, translate = \<lparr>px = 0, py = 0\<rparr>,
            getPerimeterFunction = (\<lambda>s. None),
            getPerimeterBounds = (\<lambda>s. \<lparr>rx = 0, ry = 0, rwidth = 0, rheight = 0\<rparr>),
            updateFixedTerminalPoint = (\<lambda>es t isSource c. es),
            updatePoints = (\<lambda>es pts s t. es),
            updateFloatingTerminalPoints = (\<lambda>es s t. es)\<rparr>"

definition graph0 :: Graph where
  "graph0 = \<lparr>graph_enabled = True, isMouseDown = False, gridSize = 10, tolerance = 4,
             has_container = True, validation = gv0, view = view0,
             isGridEnabledEvent = (\<lambda>e. False), grid_snap = (\<lambda>v. v), graph_snap = (\<lambda>v. v),
             isIgnoreTerminalEvent = (\<lambda>e. False),
             getOutlineConstraint = (\<lambda>p s m. None),
             getConnectionConstraint = (\<lambda>es t isSource. None),
             getPointForEvent = (\<lambda>e. \<lparr>px = clientX e, py = clientY e\<rparr>)\<rparr>"

definition browser0 :: Browser where
  "browser0 = \<lparr>sourceIsHighlight = (\<lambda>e. False), isHighlightAt = (\<lambda>a b. False),
               container_offset = \<lparr>px = 0, py = 0\<rparr>,
               container_scrollLeft = 0, container_scrollTop = 0, page_left = 0, page_top = 0,
               hitsIconNode = (\<lambda>e i. False), convertPoint = (\<lambda>a b. \<lparr>px = a, py = b\<rparr>),
               getRotatedPoint = (\<lambda>p c s ctr. p), style_rotation = (\<lambda>s. 0),
               has_TouchEvent = True\<rparr>"

definition ext0 :: Collaborators where
  "ext0 = \<lparr>ch_update = (\<lambda>me a b p c. c),
           ch_reset = (\<lambda>c. \<lparr>currentFocus = None, currentConstraint = None,
                             ch_currentPoint = None\<rparr>),
           ch_setFocus = (\<lambda>me s b c. c\<lparr>currentFocus := Some s\<rparr>),
           marker_process = (\<lambda>me h m. (m, None)),
           marker_reset = (\<lambda>m. m\<lparr>validState := None\<rparr>),
           marker_markCell = (\<lambda>c col m. m),
           createEdgeState = (\<lambda>me. None),
           new_Polyline = (\<lambda>pts col. \<lparr>sh_points = pts, stroke = col, strokeWidth = 1,
                                        has_node = True, dialect = None, sh_scale = 1,
                                        pointerEvents = True, isDashed = False\<rparr>),
           renderer_createShape = (\<lambda>es. None),
           shape_apply = (\<lambda>es s. s),
           getIconPosition = (\<lambda>i s. \<lparr>px = centerX s, py = centerY s\<rparr>),
           setAbsoluteTerminalPoint = (\<lambda>p isSource es. es),
           fresh_oid = 100,
           keeps_current_object = True\<rparr>"

definition env0 :: env where
  "env0 = \<lparr>graph = graph0, browser = browser0, ext = ext0\<rparr>"

text \<open>The handler as its constructor leaves it, and the world around it.\<close>

definition handler0 :: ConnectionHandler where
  "handler0 = \<lparr>previous = None, iconState = None, icons = None, currentPoint = None,
               sourceConstraint = None, shape = None, icon = None, originalPoint = None,
               currentState = None, selectedIcon = None, waypoints = None,
               connectImage = None, targetConnectImage = False, enabled = True,
               createTarget = False, error = None, waypointsEnabled = False,
               ignoreMouseDown = False, first = None,
               connectIconOffset = \<lparr>px = 0, py = TOOLTIP_VERTICAL_OFFSET\<rparr>,
               edgeState = None, mouseDownCounter = 0, movePreviewAway = False,
               outlineConnect = False, livePreview = False, cursor = None\<rparr>"

definition world0 :: world where
  "world0 = \<lparr>conn = handler0,
             constraintHandler = \<lparr>currentFocus = None, currentConstraint = None,
                                   ch_currentPoint = None\<rparr>,
             marker = \<lparr>validState = None, marker_source = None,
                        highlight = Some \<lparr>hl_state = None, hl_shape = None\<rparr>\<rparr>,
             effects = []\<rparr>"

definition native0 :: MouseEvent where
  "native0 = \<lparr>altDown = False, shiftDown = False, clientX = 0, clientY = 0,
               isTouchEvent = False, isMouseEvent = True, hasPreventDefault = True\<rparr>"

definition event0 :: InternalMouseEvent where
  "event0 = \<lparr>consumed = False, graphX = 0, graphY = 0, me_state = None, evt = native0\<rparr>"

text \<open>A vertex state with centre \<open>(50, 20)\<close>, and a preview polyline without points.\<close>

definition state1 :: CellState where
  "state1 = \<lparr>state_oid = 1, cell = (new_Cell 1 None None None)\<lparr>vertex := True\<rparr>,
             centerX = 50, centerY = 20, absolutePoints = [],
             exitX = None, exitY = None, entryX = None, entryY = None\<rparr>"

definition polyline0 :: Shape where
  "polyline0 = \<lparr>sh_points = [], stroke = INVALID_COLOR, strokeWidth = 1, has_node = True,
                dialect = None, sh_scale = 1, pointerEvents = False, isDashed = True\<rparr>"


text \<open>
  A handler in the middle of a gesture: the mouse went down on a fixed connection point of
  \<open>state1\<close> at \<open>(50, 20)\<close>, which gave the source, the source constraint and the first
  point, and the preview shape exists.
\<close>

definition constraint0 :: ConnectionConstraint where
  "constraint0 = \<lparr>cc_point = Some \<lparr>px = 1 / 2, py = 1 / 2\<rparr>, cc_perimeter = True,
                  cc_name = None, cc_dx = 0, cc_dy = 0\<rparr>"

definition gesture0 :: ConnectionHandler where
  "gesture0 = handler0\<lparr>previous := Some state1, sourceConstraint := Some constraint0,
                       first := Some \<lparr>px = 50, py = 20\<rparr>, shape := Some polyline0,
                       mouseDownCounter := 1\<rparr>"

text \<open>
  That gesture with waypoints enabled, with a stored validation message, and with the empty
  message; and the release of the mouse over the empty canvas at \<open>(200, 100)\<close>.
\<close>

definition world_wp :: world where
  "world_wp = world0\<lparr>conn := gesture0\<lparr>waypointsEnabled := True\<rparr>\<rparr>"

definition world_msg :: world where
  "world_msg = world0\<lparr>conn := gesture0\<lparr>error := Some ''Invalid target''\<rparr>\<rparr>"

definition world_wp_msg :: world where
  "world_wp_msg = world0\<lparr>conn := gesture0\<lparr>waypointsEnabled := True,
                                          error := Some ''Invalid target''\<rparr>\<rparr>"

definition world_silent :: world where
  "world_silent = world0\<lparr>conn := gesture0\<lparr>error := Some []\<rparr>\<rparr>"

definition event_release :: InternalMouseEvent where
  "event_release = event0\<lparr>graphX := 200, graphY := 100,
                          evt := native0\<lparr>clientX := 200, clientY := 100\<rparr>\<rparr>"

text \<open>A label whose node is not displayed: \<open>getBBox()\<close> raises.\<close>

definition imports0 :: TextImports where
  "imports0 = \<lparr>trim = (\<lambda>s. s), getBoundingBox = (\<lambda>r rot c. r),
               ALIGN_CENTER = Some ''center'', ALIGN_MIDDLE = Some ''middle''\<rparr>"

definition hidden_node :: TextNode where
  "hidden_node = \<lparr>has_foreignObject = False, inner_div = None, getBBox = Inl DomError\<rparr>"

definition label0 :: TextShape where
  "label0 = \<lparr>ts_value = StringValue ''Hello'',
             ts_bounds = \<lparr>rx = 10, ry = 20, rwidth = 40, rheight = 12\<rparr>,
             boundingBox = None, unrotatedBoundingBox = None,
             margin = Some \<lparr>px = - 1 / 2, py = - 1 / 2\<rparr>,
             ignoreStringSize = False, overflow = ''visible'', clipped = False,
             ignoreClippedStringSize = True, ts_scale = 1,
             labelPosition = None, verticalLabelPosition = None,
             node = Some hidden_node, textRotation = 0\<rparr>"

text \<open>A perimeter function, and an environment whose view hands it out for every state.\<close>

definition perim0 :: perimeter_fn where
  "perim0 b es nxt orthogonal = Some \<lparr>px = rx b, py = py nxt\<rparr>"

definition env_perim :: env where
  "env_perim = env0\<lparr>graph := graph0\<lparr>view := view0\<lparr>getPerimeterFunction := (\<lambda>s. Some perim0)\<rparr>\<rparr>\<rparr>"

definition consumed0 :: InternalMouseEvent where
  "consumed0 = event0\<lparr>consumed := True\<rparr>"

text \<open>
  The gesture with \<open>movePreviewAway\<close> set and a mouse move back onto the first point
  \<open>(50, 20)\<close>; the gesture without it, a mouse move to \<open>(30, 40)\<close>, and the world
  that this move leaves.
\<close>

definition world_away :: world where
  "world_away = world0\<lparr>conn := gesture0\<lparr>movePreviewAway := True\<rparr>\<rparr>"

definition event_back :: InternalMouseEvent where
  "event_back = event0\<lparr>graphX := 50, graphY := 20\<rparr>"

definition world_drag :: world where
  "world_drag = world0\<lparr>conn := gesture0\<rparr>"

definition event_drag :: InternalMouseEvent where
  "event_drag = event0\<lparr>graphX := 30, graphY := 40\<rparr>"

definition world_drawn :: world where
  "world_drawn =
     world_drag\<lparr>conn := (conn world_drag)\<lparr>currentPoint := Some \<lparr>px = 30, py = 40\<rparr>,
          shape := Some (polyline0\<lparr>sh_points := [Some \<lparr>px = 50, py = 20\<rparr>, Some \<lparr>px = 30, py = 40\<rparr>],
                                   stroke := VALID_COLOR, strokeWidth := 3\<rparr>)\<rparr>,
        effects := [ConstraintUpdate, MarkerProcess, ShapeRedraw, NativeConsume, PreventDefault]\<rparr>"

text \<open>
  With \<open>movePreviewAway\<close> set, a mouse move to \<open>(56, 28)\<close>, at the distance \<open>10\<close> from the
  first point \<open>(50, 20)\<close>, and the world that this move leaves: the preview ends \<open>4\<close>
  units before the pointer.
\<close>

definition event_far :: InternalMouseEvent where
  "event_far = event0\<lparr>graphX := 56, graphY := 28\<rparr>"

definition world_moved :: world where
  "world_moved =
     world_away\<lparr>conn := (conn world_away)\<lparr>currentPoint := Some \<lparr>px = 268 / 5, py = 124 / 5\<rparr>,
          originalPoint := Some \<lparr>px = 56, py = 28\<rparr>,
          shape := Some (polyline0\<lparr>sh_points := [Some \<lparr>px = 50, py = 20\<rparr>,
                                                   Some \<lparr>px = 268 / 5, py = 124 / 5\<rparr>],
                                   stroke := VALID_COLOR, strokeWidth := 3\<rparr>)\<rparr>,
        effects := [ConstraintUpdate, MarkerProcess, ShapeRedraw, NativeConsume, PreventDefault]\<rparr>"

text \<open>
  The same environment with the grid switched on (\<open>snap\<close> rounds to multiples of \<open>10\<close>), and
  a mouse move to \<open>(13, 27)\<close>, which snaps to \<open>(10, 30)\<close>.
\<close>

definition env_grid :: env where
  "env_grid = env0\<lparr>graph := graph0\<lparr>isGridEnabledEvent := (\<lambda>e. True),
                                     grid_snap := (\<lambda>v. 10 * of_int (round (v / 10)))\<rparr>\<rparr>"

definition event_grid :: InternalMouseEvent where
  "event_grid = event0\<lparr>graphX := 13, graphY := 27\<rparr>"

text \<open>
  A handler whose source is \<open>state1\<close> (centre \<open>(50, 20)\<close>) without source constraint, the
  mouse having gone down at \<open>(48, 18)\<close>, and a mouse move to \<open>(49, 21)\<close>: both coordinates
  are within \<open>gridSize * scale / 2 = 5\<close> of the centre.
\<close>

definition handler_src :: ConnectionHandler where
  "handler_src = handler0\<lparr>previous := Some state1, first := Some \<lparr>px = 48, py = 18\<rparr>,
                          mouseDownCounter := 1\<rparr>"

definition event_near :: InternalMouseEvent where
  "event_near = event0\<lparr>graphX := 49, graphY := 21\<rparr>"

text \<open>The concrete inputs and the parts of \<open>mouseMove\<close>, for evaluation.\<close>

lemmas fixture_defs = env0_def graph0_def view0_def browser0_def ext0_def gv0_def world0_def
  handler0_def native0_def event0_def polyline0_def state1_def gesture0_def constraint0_def

lemmas mouseMove_defs = mouseMove_def mouseMove_handled_def mouseMove_point_def
  mouseMove_update_def mouseMove_preview_def updateCurrentState_def updateCurrentState_marker_def
  isOutlineConnectEvent_def preview_terminals_def preview_pick_def move_selectedIcon_def
  preview_target_point_def preview_source_point_def preview_away_def preview_shape_def
  drawPreview_def mouseMove_icons_def snapToPreview_def isSource_def getValidState_def
  isCellEnabled_def isEnabled_def isConsumed_def getGraphX_def getGraphY_def getState_def
  abs_real_def and_then_def returns_def throw_def emit_def consume_def Let_def
  updatePreview_def getEdgeColor_def getEdgeWidth_def

section \<open>Properties of mxUrlConverter\<close>

lemma isRelativeUrl_iff: "isRelativeUrl url \<longleftrightarrow> \<not> nonRelativeUrl url"
  by (simp add: isRelativeUrl_def nonRelativeUrl_def startsWith_def substring0_def
        eval_nat_numeral)

text \<open>
  Claim C10. \<open>convert\<close> is the identity on non-relative URLs: when \<open>isRelativeUrl url\<close> is
  falsy (the URL is empty or starts with \<open>//\<close>, \<open>http://\<close>, \<open>https://\<close>, \<open>data:image\<close> or
  \<open>file://\<close>), and for every URL when the converter is disabled, \<open>convert url\<close> returns
  \<open>url\<close> unchanged (and leaves the converter as it was).
\<close>

theorem convert_identity_non_relative:
  "(\<not> isRelativeUrl url) = nonRelativeUrl url \<and>
   (nonRelativeUrl url \<or> \<not> url_enabled c \<longrightarrow> convert loc c url = (url, c))"
  by (simp add: isRelativeUrl_iff convert_def)

theorem convert_identity_non_relative_witness:
  "nonRelativeUrl ''https://a/b.png'' \<and>
   convert \<lparr>protocol = ''http:'', host = ''h'', pathname = ''/p/i.html''\<rparr>
     \<lparr>url_enabled = True, baseUrl = None, baseDomain = None\<rparr> ''https://a/b.png''
   = (''https://a/b.png'', \<lparr>url_enabled = True, baseUrl = None, baseDomain = None\<rparr>)"
proof -
  have n: "nonRelativeUrl ''https://a/b.png''"
    by (simp add: nonRelativeUrl_def startsWith_def)
  from n convert_identity_non_relative
    [of "''https://a/b.png''" "\<lparr>url_enabled = True, baseUrl = None, baseDomain = None\<rparr>"
        "\<lparr>protocol = ''http:'', host = ''h'', pathname = ''/p/i.html''\<rparr>"]
  show ?thesis by blast
qed

section \<open>Properties of createVertex and createEdge\<close>

text \<open>
  Claim C2 as stated (every call of \<open>createVertex\<close> with arbitrary real width and height
  yields a geometry with non-negative width and height) fails: \<open>createVertex\<close> hands width
  and height to the geometry constructor as they are, so a negative width arrives in the
  geometry of the returned vertex.
\<close>

theorem createVertex_negative_width_counterexample:
  "map_option width
     (geometry (createVertex 1 None None None 0 0 (- 5) 3 None None new_Geometry)) = Some (- 5)
   \<and> (- 5 :: real) < 0"
  by (simp add: createVertex_def new_Cell_def new_Geometry_def)

text \<open>
  Claim C2, amended. \<open>createVertex\<close> neither checks nor clamps: the geometry of the returned
  vertex is the one the geometry class builds from \<open>(x, y, width, height)\<close>, with only
  \<open>relative\<close> set afterwards. For the position/size record its width and height are the
  arguments, so they are non-negative exactly when the arguments are. The geometry of an edge
  made by \<open>createEdge\<close> is \<open>new Geometry()\<close> made relative: width \<open>0\<close> and height \<open>0\<close>.
\<close>

theorem createVertex_geometry_as_given:
  "geometry (createVertex oid parent ident v x y w h st rel geometryClass)
     = Some ((geometryClass x y w h)\<lparr>relative := (case rel of Some r \<Rightarrow> r | None \<Rightarrow> False)\<rparr>)
   \<and> map_option width (geometry (createVertex oid parent ident v x y w h st rel new_Geometry)) = Some w
   \<and> map_option height (geometry (createVertex oid parent ident v x y w h st rel new_Geometry)) = Some h
   \<and> ((\<exists>g. geometry (createVertex oid parent ident v x y w h st rel new_Geometry) = Some g
            \<and> 0 \<le> width g \<and> 0 \<le> height g) = (0 \<le> w \<and> 0 \<le> h))
   \<and> map_option width (geometry (createEdge oid' parent' ident' v' src tgt st')) = Some 0
   \<and> map_option height (geometry (createEdge oid' parent' ident' v' src tgt st')) = Some 0"
  by (simp add: createVertex_def createEdge_def new_Cell_def new_Geometry_def Let_def)

section \<open>Properties of GraphValidation\<close>

text \<open>
  Claim C8. The rules of \<open>getEdgeValidationError\<close> are tried in the order of the code.
  With \<open>allowDanglingEdges\<close> false, a non-null edge whose source or target argument is null
  gets the empty string (invalid, no message). Where that first rule does not fire, an edge
  whose own stored terminals are both null gets \<open>null\<close> (valid). \<open>isEdgeValid\<close> is true
  exactly when \<open>getEdgeValidationError\<close> returns \<open>null\<close>.
\<close>

theorem getEdgeValidationError_dangling:
  "(\<not> allowDanglingEdges g \<and> (source = None \<or> target = None)
      \<longrightarrow> getEdgeValidationError g (Some ed) source target = Some [])
   \<and> (\<not> (\<not> allowDanglingEdges g \<and> (source = None \<or> target = None))
        \<and> source_terminal ed = None \<and> target_terminal ed = None
      \<longrightarrow> getEdgeValidationError g (Some ed) source target = None)
   \<and> (isEdgeValid g e source target = (getEdgeValidationError g e source target = None))"
  by (auto simp add: getEdgeValidationError_def isEdgeValid_def isAllowDanglingEdges_def
        getTerminal_def)

theorem getEdgeValidationError_dangling_witness:
  "getEdgeValidationError gv0 (Some (new_Cell 7 None None None)) None (Some (new_Cell 8 None None None))
     = Some []
   \<and> getEdgeValidationError gv0 (Some (new_Cell 7 None None None))
        (Some (new_Cell 8 None None None)) (Some (new_Cell 9 None None None)) = None
   \<and> isEdgeValid gv0 (Some (new_Cell 7 None None None))
        (Some (new_Cell 8 None None None)) (Some (new_Cell 9 None None None))"
proof -
  have a: "\<not> allowDanglingEdges gv0" by (simp add: gv0_def)
  have t: "source_terminal (new_Cell 7 None None None) = None
           \<and> target_terminal (new_Cell 7 None None None) = None"
    by (simp add: new_Cell_def)
  from getEdgeValidationError_dangling
         [of gv0 None "Some (new_Cell 8 None None None)" "new_Cell 7 None None None"] a
  have one: "getEdgeValidationError gv0 (Some (new_Cell 7 None None None)) None
               (Some (new_Cell 8 None None None)) = Some []"
    by simp
  from getEdgeValidationError_dangling
         [of gv0 "Some (new_Cell 8 None None None)" "Some (new_Cell 9 None None None)"
             "new_Cell 7 None None None" "Some (new_Cell 7 None None None)"] t
  have two: "getEdgeValidationError gv0 (Some (new_Cell 7 None None None))
               (Some (new_Cell 8 None None None)) (Some (new_Cell 9 None None None)) = None"
    and three: "isEdgeValid gv0 (Some (new_Cell 7 None None None))
               (Some (new_Cell 8 None None None)) (Some (new_Cell 9 None None None))"
    by simp_all
  from one two three show ?thesis by simp
qed

section \<open>Properties of the connection handler\<close>

subsection \<open>Effects and fields that the small methods leave alone\<close>

lemma conn_emit [simp]: "conn (emit fx w) = conn w"
  by (simp add: emit_def)

lemma effects_emit [simp]: "effects (emit fx w) = effects w @ fx"
  by (simp add: emit_def)

lemma marker_emit [simp]: "marker (emit fx w) = marker w"
  by (simp add: emit_def)

lemma constraintHandler_emit [simp]: "constraintHandler (emit fx w) = constraintHandler w"
  by (simp add: emit_def)

lemma conn_reset_constraintHandler [simp]: "conn (reset_constraintHandler E w) = conn w"
  by (simp add: reset_constraintHandler_def)

lemma effects_reset_constraintHandler [simp]:
  "effects (reset_constraintHandler E w) = effects w @ [ConstraintReset]"
  by (simp add: reset_constraintHandler_def)

lemma destroyIcons_keeps:
  "first (conn (destroyIcons w)) = first (conn w)"
  "shape (conn (destroyIcons w)) = shape (conn w)"
  "cursor (conn (destroyIcons w)) = cursor (conn w)"
  "marker (destroyIcons w) = marker w"
  "constraintHandler (destroyIcons w) = constraintHandler w"
  by (simp_all add: destroyIcons_def split: option.splits)

lemma destroyIcons_effects:
  "filter is_connect (effects (destroyIcons w)) = filter is_connect (effects w)"
  "filter is_alert (effects (destroyIcons w)) = filter is_alert (effects w)"
  by (simp_all add: destroyIcons_def comp_def split: option.splits)

lemma reset_in_reset_state: "in_reset_state (conn (reset E w))"
  by (simp add: in_reset_state_def reset_def Let_def destroyIcons_def split: option.splits)

lemma reset_effects:
  "filter is_connect (effects (reset E w)) = filter is_connect (effects w)"
  "filter is_alert (effects (reset E w)) = filter is_alert (effects w)"
  by (simp_all add: reset_def Let_def destroyIcons_def comp_def split: option.splits)

lemma consume_result:
  "consume E None me w
     = (if has_TouchEvent (browser E) then
          Inr (me\<lparr>consumed := True\<rparr>,
               if (isTouchEvent (evt me) \<or> isMouseEvent (evt me)) \<and> hasPreventDefault (evt me)
               then emit [PreventDefault] w else w)
        else Inl (ReferenceError, w))"
  by (simp add: consume_def returns_def throw_def Let_def)

lemma consume_world_left:
  "conn (world_left (consume E None me w)) = conn w"
  "filter is_connect (effects (world_left (consume E None me w))) = filter is_connect (effects w)"
  "filter is_alert (effects (world_left (consume E None me w))) = filter is_alert (effects w)"
  by (simp_all add: consume_result world_left_def)

lemma mouseUp_finish_returns:
  assumes "has_TouchEvent (browser E)"
  shows "mouseUp_finish E me w
           = Inr (me\<lparr>consumed := True\<rparr>, world_left (mouseUp_finish E me w))"
  using assms by (simp add: mouseUp_finish_def Let_def consume_result world_left_def)

lemma mouseUp_finish_raises:
  assumes "\<not> has_TouchEvent (browser E)"
  shows "mouseUp_finish E me w = Inl (ReferenceError, world_left (mouseUp_finish E me w))"
  using assms by (simp add: mouseUp_finish_def Let_def consume_result world_left_def)

lemma mouseUp_finish_first:
  "first (conn (world_left (mouseUp_finish E me w))) = first (conn w)"
  "shape (conn (world_left (mouseUp_finish E me w))) = shape (conn w)"
  by (simp_all add: mouseUp_finish_def Let_def validationAlert_def consume_world_left connect_def
        destroyIcons_keeps split: option.splits prod.splits)

lemma mouseUp_finish_error:
  assumes "error (conn w) = Some msg"
  shows "filter is_connect (effects (world_left (mouseUp_finish E me w)))
           = filter is_connect (effects w)"
    and "filter is_alert (effects (world_left (mouseUp_finish E me w)))
           = filter is_alert (effects w) @ (if msg = [] then [] else [Alert (Some msg)])"
  using assms
  by (simp_all add: mouseUp_finish_def Let_def validationAlert_def consume_world_left
        destroyIcons_effects split: option.splits prod.splits)

lemma mouseUp_gesture_end:
  assumes "gesture_end me w"
  shows "has_TouchEvent (browser E) \<Longrightarrow>
           mouseUp E me w
             = Inr (me\<lparr>consumed := True\<rparr>, reset E (world_left (mouseUp_finish E me w)))"
    and "\<not> has_TouchEvent (browser E) \<Longrightarrow>
           mouseUp E me w = Inl (ReferenceError, world_left (mouseUp_finish E me w))"
proof -
  have c: "\<not> isConsumed me \<and> isConnecting (conn w)"
    using assms by (simp add: gesture_end_def)
  have n: "\<not> (\<not> isConsumed me \<and> isConnecting (conn w) \<and> waypointsEnabled (conn w) \<and>
               \<not> isStopEvent me)"
    using assms by (auto simp add: gesture_end_def)
  have f: "first (conn (world_left (mouseUp_finish E me w))) \<noteq> None"
    using c by (simp add: mouseUp_finish_first isConnecting_def)
  have m: "mouseUp E me w
             = and_then (mouseUp_finish E me w)
                 (\<lambda>me1 w1. if first (conn w1) \<noteq> None then returns me1 (reset E w1)
                            else returns me1 w1)"
    using c n by (auto simp add: mouseUp_def)
  show "has_TouchEvent (browser E) \<Longrightarrow>
           mouseUp E me w
             = Inr (me\<lparr>consumed := True\<rparr>, reset E (world_left (mouseUp_finish E me w)))"
  proof -
    assume t: "has_TouchEvent (browser E)"
    define w2 where "w2 = world_left (mouseUp_finish E me w)"
    have r: "mouseUp_finish E me w = Inr (me\<lparr>consumed := True\<rparr>, w2)"
      unfolding w2_def using t by (rule mouseUp_finish_returns)
    have "first (conn w2) \<noteq> None"
      using f by (simp add: w2_def)
    then have "mouseUp E me w = Inr (me\<lparr>consumed := True\<rparr>, reset E w2)"
      by (simp add: m r and_then_def returns_def)
    then show ?thesis by (simp add: w2_def)
  qed
  show "\<not> has_TouchEvent (browser E) \<Longrightarrow>
           mouseUp E me w = Inl (ReferenceError, world_left (mouseUp_finish E me w))"
  proof -
    assume t: "\<not> has_TouchEvent (browser E)"
    define w2 where "w2 = world_left (mouseUp_finish E me w)"
    have r: "mouseUp_finish E me w = Inl (ReferenceError, w2)"
      unfolding w2_def using t by (rule mouseUp_finish_raises)
    have "mouseUp E me w = Inl (ReferenceError, w2)"
      by (simp add: m r and_then_def)
    then show ?thesis by (simp add: w2_def)
  qed
qed

lemma mouseUp_gesture_end_world_left:
  assumes "gesture_end me w"
  shows "world_left (mouseUp E me w)
           = (if has_TouchEvent (browser E) then reset E (world_left (mouseUp_finish E me w))
              else world_left (mouseUp_finish E me w))"
  using mouseUp_gesture_end [OF assms, of E] by (simp add: world_left_def)

lemma mouseUp_not_gesture_end:
  assumes "\<not> gesture_end me w"
  shows "filter is_connect (effects (world_left (mouseUp E me w))) = filter is_connect (effects w)"
    and "filter is_alert (effects (world_left (mouseUp E me w))) = filter is_alert (effects w)"
  using assms
  by (auto simp add: gesture_end_def mouseUp_def and_then_def returns_def throw_def world_left_def
        addWaypointForEvent_def Let_def consume_result reset_effects
        split: option.splits)

text \<open>
  Where the page does not define \<open>TouchEvent\<close>, the \<open>mouseUp\<close> that ends a gesture raises in
  \<open>me.consume()\<close>, before \<open>reset()\<close>: the handler is still connecting.
\<close>

lemma mouseUp_without_TouchEvent:
  assumes "gesture_end me w" and "\<not> has_TouchEvent (browser E)"
  shows "\<exists>w1. mouseUp E me w = Inl (ReferenceError, w1) \<and> isConnecting (conn w1)"
  using assms mouseUp_gesture_end(2) [of me w E] mouseUp_finish_first [of E me w]
  by (simp add: gesture_end_def isConnecting_def)

subsection \<open>Consumed events\<close>

text \<open>
  Claim C1 as stated (a consumed event leaves every field of the handler unchanged in
  \<open>mouseDown\<close>, \<open>mouseMove\<close> and \<open>mouseUp\<close>) fails: \<open>mouseDown\<close> counts every event before it
  looks at \<open>isConsumed()\<close>, so a consumed event on a fresh handler leaves
  \<open>mouseDownCounter = 1\<close>.
\<close>

theorem mouseDown_consumed_counterexample:
  "isConsumed consumed0 \<and>
   mouseDownCounter (conn world0) = 0 \<and>
   mouseDown env0 consumed0 world0
     = Inr (consumed0, world0\<lparr>conn := handler0\<lparr>mouseDownCounter := 1\<rparr>\<rparr>)"
  by (simp add: mouseDown_def isConsumed_def consumed0_def event0_def world0_def handler0_def
        Let_def and_then_def returns_def)

text \<open>
  Claim C1, amended. For a consumed event no handler starts, updates or completes a
  connection. \<open>mouseDown\<close> leaves \<open>first\<close>, \<open>previous\<close>, \<open>edgeState\<close>, \<open>error\<close>,
  \<open>sourceConstraint\<close>, \<open>shape\<close>, \<open>currentState\<close> and \<open>currentPoint\<close> as they were, but it
  counts the event (\<open>mouseDownCounter\<close> grows by one) and moves \<open>icon\<close> to \<open>selectedIcon\<close>
  (\<open>icon\<close> becomes \<open>null\<close>). \<open>mouseMove\<close> leaves every field of the handler as it was and
  resets the constraint handler only. \<open>mouseUp\<close> runs no \<open>connect\<close>; it leaves every field as
  it was when \<open>first\<close> is \<open>null\<close> and runs \<open>reset()\<close> when \<open>first\<close> is not \<open>null\<close>.
\<close>

theorem consumed_event_ignored:
  "isConsumed me \<longrightarrow>
     mouseDown E me w
       = Inr (me, w\<lparr>conn := (conn w)\<lparr>mouseDownCounter := mouseDownCounter (conn w) + 1,
                                      selectedIcon := icon (conn w), icon := None\<rparr>\<rparr>) \<and>
     mouseMove E me w = Inr (me, reset_constraintHandler E w) \<and>
     conn (reset_constraintHandler E w) = conn w \<and>
     mouseUp E me w = Inr (me, if first (conn w) = None then w else reset E w) \<and>
     filter is_connect (effects (reset E w)) = filter is_connect (effects w)"
  by (simp add: mouseDown_def mouseMove_def mouseUp_def Let_def and_then_def returns_def
        reset_effects)

theorem consumed_event_ignored_witness:
  "isConsumed consumed0 \<and>
   mouseDown env0 consumed0 world0
     = Inr (consumed0, world0\<lparr>conn := handler0\<lparr>mouseDownCounter := 1\<rparr>\<rparr>) \<and>
   mouseMove env0 consumed0 world0 = Inr (consumed0, world0\<lparr>effects := [ConstraintReset]\<rparr>) \<and>
   mouseUp env0 consumed0 world0 = Inr (consumed0, world0) \<and>
   mouseUp env0 consumed0 world_msg = Inr (consumed0, reset env0 world_msg) \<and>
   in_reset_state (conn (reset env0 world_msg))"
proof -
  have c: "isConsumed consumed0"
    by (simp add: isConsumed_def consumed0_def)
  have f0: "first (conn world0) = None"
    by (simp add: world0_def handler0_def)
  have f1: "first (conn world_msg) \<noteq> None"
    by (simp add: world_msg_def fixture_defs)
  have r: "reset_constraintHandler env0 world0 = world0\<lparr>effects := [ConstraintReset]\<rparr>"
    by (simp add: reset_constraintHandler_def emit_def env0_def ext0_def world0_def)
  have d: "world0\<lparr>conn := (conn world0)\<lparr>mouseDownCounter := mouseDownCounter (conn world0) + 1,
                                        selectedIcon := icon (conn world0), icon := None\<rparr>\<rparr>
           = world0\<lparr>conn := handler0\<lparr>mouseDownCounter := 1\<rparr>\<rparr>"
    by (simp add: world0_def handler0_def)
  from consumed_event_ignored [of consumed0 env0 world0] c f0 r d
  have a: "mouseDown env0 consumed0 world0
             = Inr (consumed0, world0\<lparr>conn := handler0\<lparr>mouseDownCounter := 1\<rparr>\<rparr>) \<and>
           mouseMove env0 consumed0 world0 = Inr (consumed0, world0\<lparr>effects := [ConstraintReset]\<rparr>) \<and>
           mouseUp env0 consumed0 world0 = Inr (consumed0, world0)"
    by simp
  from consumed_event_ignored [of consumed0 env0 world_msg] c f1
  have b: "mouseUp env0 consumed0 world_msg = Inr (consumed0, reset env0 world_msg)"
    by simp
  from a b c reset_in_reset_state [of env0 world_msg] show ?thesis by simp
qed

subsection \<open>The target perimeter point\<close>

text \<open>
  Claim C6. For a target state with a perimeter function \<open>getTargetPerimeterPoint\<close> returns
  what that function yields for the state's perimeter bounds and the next point: the last
  waypoint when there are waypoints, otherwise the centre of the source state
  \<open>this.previous\<close>. For a state without perimeter function it returns the centre
  \<open>(getCenterX(), getCenterY())\<close> of the target state.
\<close>

theorem getTargetPerimeterPoint_result:
  "(getPerimeterFunction (view (graph E)) st = Some f \<and> waypoints h = Some wps \<and> wps \<noteq> []
      \<longrightarrow> getTargetPerimeterPoint E h st me
            = Inr (f (getPerimeterBounds (view (graph E)) st) (edgeState h) (last wps) False))
   \<and> (getPerimeterFunction (view (graph E)) st = Some f \<and>
        (waypoints h = None \<or> waypoints h = Some []) \<and> previous h = Some p
      \<longrightarrow> getTargetPerimeterPoint E h st me
            = Inr (f (getPerimeterBounds (view (graph E)) st) (edgeState h)
                     \<lparr>px = centerX p, py = centerY p\<rparr> False))
   \<and> (getPerimeterFunction (view (graph E)) st = None
      \<longrightarrow> getTargetPerimeterPoint E h st me = Inr (Some \<lparr>px = centerX st, py = centerY st\<rparr>))"
  by (auto simp add: getTargetPerimeterPoint_def split: list.splits)

theorem getTargetPerimeterPoint_result_witness:
  "getTargetPerimeterPoint env_perim
     (handler0\<lparr>waypoints := Some [\<lparr>px = 1, py = 2\<rparr>, \<lparr>px = 3, py = 4\<rparr>]\<rparr>) state1 event0
     = Inr (Some \<lparr>px = 0, py = 4\<rparr>) \<and>
   getTargetPerimeterPoint env_perim (handler0\<lparr>previous := Some state1\<rparr>) state1 event0
     = Inr (Some \<lparr>px = 0, py = 20\<rparr>) \<and>
   getTargetPerimeterPoint env0 handler0 state1 event0 = Inr (Some \<lparr>px = 50, py = 20\<rparr>)"
proof -
  have pf: "getPerimeterFunction (view (graph env_perim)) state1 = Some perim0"
    by (simp add: env_perim_def env0_def graph0_def view0_def)
  have pb: "getPerimeterBounds (view (graph env_perim)) state1
              = \<lparr>rx = 0, ry = 0, rwidth = 0, rheight = 0\<rparr>"
    by (simp add: env_perim_def env0_def graph0_def view0_def)
  have np: "getPerimeterFunction (view (graph env0)) state1 = None"
    by (simp add: env0_def graph0_def view0_def)
  from getTargetPerimeterPoint_result
         [of env_perim state1 perim0
             "handler0\<lparr>waypoints := Some [\<lparr>px = 1, py = 2\<rparr>, \<lparr>px = 3, py = 4\<rparr>]\<rparr>"
             "[\<lparr>px = 1, py = 2\<rparr>, \<lparr>px = 3, py = 4\<rparr>]" event0 state1] pf pb
  have one: "getTargetPerimeterPoint env_perim
     (handler0\<lparr>waypoints := Some [\<lparr>px = 1, py = 2\<rparr>, \<lparr>px = 3, py = 4\<rparr>]\<rparr>) state1 event0
     = Inr (Some \<lparr>px = 0, py = 4\<rparr>)"
    by (simp add: perim0_def)
  from getTargetPerimeterPoint_result
         [of env_perim state1 perim0 "handler0\<lparr>previous := Some state1\<rparr>" "[]" event0 state1] pf pb
  have two: "getTargetPerimeterPoint env_perim (handler0\<lparr>previous := Some state1\<rparr>) state1 event0
     = Inr (Some \<lparr>px = 0, py = 20\<rparr>)"
    by (simp add: perim0_def handler0_def state1_def)
  from getTargetPerimeterPoint_result [of env0 state1 perim0 handler0 "[]" event0 state1] np
  have three: "getTargetPerimeterPoint env0 handler0 state1 event0
     = Inr (Some \<lparr>px = 50, py = 20\<rparr>)"
    by (simp add: state1_def)
  from one two three show ?thesis by simp
qed

subsection \<open>Reset\<close>

text \<open>
  Claim C9 as stated (every \<open>mouseUp\<close> that begins with \<open>first\<close> set ends in the reset state)
  fails: with waypoints enabled, a \<open>mouseUp\<close> with no cell state under the event is a waypoint
  click. It consumes the event and returns before the reset; the gesture goes on.
\<close>

theorem mouseUp_waypoint_counterexample:
  "first (conn world_wp) \<noteq> None \<and>
   mouseUp env0 event_release world_wp
     = Inr (event_release\<lparr>consumed := True\<rparr>, world_wp\<lparr>effects := [PreventDefault]\<rparr>) \<and>
   isConnecting (conn (world_wp\<lparr>effects := [PreventDefault]\<rparr>)) \<and>
   \<not> in_reset_state (conn (world_wp\<lparr>effects := [PreventDefault]\<rparr>))"
  by (simp add: world_wp_def event_release_def fixture_defs
        mouseUp_def isConsumed_def isConnecting_def isStopEvent_def getState_def
        addWaypointForEvent_def Let_def abs_real_def and_then_def returns_def consume_def emit_def
        in_reset_state_def)

text \<open>
  Claim C9, amended. After every call of \<open>reset()\<close> the fields \<open>shape\<close>, \<open>originalPoint\<close>,
  \<open>currentPoint\<close>, \<open>edgeState\<close>, \<open>previous\<close>, \<open>error\<close>, \<open>sourceConstraint\<close> and \<open>first\<close> are
  \<open>null\<close> and \<open>mouseDownCounter\<close> is \<open>0\<close>. Every \<open>mouseUp\<close> that begins with \<open>first\<close> set, is
  not a waypoint click, and does not call \<open>me.consume()\<close> on a page without \<open>TouchEvent\<close>
  (the event is already consumed, or no connection is previewed, or the page defines
  \<open>TouchEvent\<close>) returns with the handler in that state (so \<open>isConnecting()\<close> is false),
  whether the event was consumed or not and whether a connection was made or not. A waypoint
  click that returns leaves the handler's fields as they were.
\<close>

theorem reset_and_mouseUp:
  "in_reset_state (conn (reset E w)) \<and>
   (first (conn w) \<noteq> None \<and> \<not> waypoint_branch me w \<and>
    (isConsumed me \<or> \<not> isConnecting (conn w) \<or> has_TouchEvent (browser E)) \<longrightarrow>
      (\<exists>me1 w1. mouseUp E me w = Inr (me1, w1) \<and> in_reset_state (conn w1) \<and>
                 \<not> isConnecting (conn w1))) \<and>
   (waypoint_branch me w \<longrightarrow>
      (\<forall>me1 w1. mouseUp E me w = Inr (me1, w1) \<longrightarrow> conn w1 = conn w))"
proof (intro conjI impI)
  show "in_reset_state (conn (reset E w))" by (rule reset_in_reset_state)
next
  assume a: "first (conn w) \<noteq> None \<and> \<not> waypoint_branch me w \<and>
             (isConsumed me \<or> \<not> isConnecting (conn w) \<or> has_TouchEvent (browser E))"
  have "\<exists>me1 w2. mouseUp E me w = Inr (me1, reset E w2)"
  proof (cases "\<not> isConsumed me \<and> isConnecting (conn w)")
    case True
    then have "gesture_end me w" and "has_TouchEvent (browser E)"
      using a by (auto simp add: gesture_end_def waypoint_branch_def)
    then show ?thesis using mouseUp_gesture_end(1) [of me w E] by blast
  next
    case False
    then have "mouseUp E me w = Inr (me, reset E w)"
      using a by (auto simp add: mouseUp_def and_then_def returns_def)
    then show ?thesis by blast
  qed
  then obtain me1 w2 where m: "mouseUp E me w = Inr (me1, reset E w2)" by blast
  moreover have "in_reset_state (conn (reset E w2))" by (rule reset_in_reset_state)
  moreover have "\<not> isConnecting (conn (reset E w2))"
    using reset_in_reset_state [of E w2] by (simp add: in_reset_state_def isConnecting_def)
  ultimately show "\<exists>me1 w1. mouseUp E me w = Inr (me1, w1) \<and> in_reset_state (conn w1) \<and>
                 \<not> isConnecting (conn w1)" by blast
next
  assume b: "waypoint_branch me w"
  show "\<forall>me1 w1. mouseUp E me w = Inr (me1, w1) \<longrightarrow> conn w1 = conn w"
    using b
    by (auto simp add: mouseUp_def waypoint_branch_def addWaypointForEvent_def Let_def and_then_def
          returns_def throw_def consume_result split: option.splits if_splits)
qed

theorem reset_and_mouseUp_witness:
  "first (conn world_msg) \<noteq> None \<and> \<not> waypoint_branch event_release world_msg \<and>
   has_TouchEvent (browser env0) \<and>
   (\<exists>me1 w1. mouseUp env0 event_release world_msg = Inr (me1, w1) \<and> in_reset_state (conn w1) \<and>
              \<not> isConnecting (conn w1)) \<and>
   waypoint_branch event_release world_wp \<and>
   mouseUp env0 event_release world_wp
     = Inr (event_release\<lparr>consumed := True\<rparr>, world_wp\<lparr>effects := [PreventDefault]\<rparr>) \<and>
   conn (world_wp\<lparr>effects := [PreventDefault]\<rparr>) = conn world_wp"
proof -
  have f: "first (conn world_msg) \<noteq> None"
    by (simp add: world_msg_def fixture_defs)
  have n: "\<not> waypoint_branch event_release world_msg"
    by (simp add: waypoint_branch_def world_msg_def fixture_defs)
  have t: "has_TouchEvent (browser env0)"
    by (simp add: env0_def browser0_def)
  have y: "waypoint_branch event_release world_wp"
    by (simp add: waypoint_branch_def world_wp_def event_release_def fixture_defs
          isConsumed_def isConnecting_def isStopEvent_def getState_def)
  have m: "mouseUp env0 event_release world_wp
             = Inr (event_release\<lparr>consumed := True\<rparr>, world_wp\<lparr>effects := [PreventDefault]\<rparr>)"
    by (simp add: world_wp_def event_release_def fixture_defs
          mouseUp_def isConsumed_def isConnecting_def isStopEvent_def getState_def
          addWaypointForEvent_def Let_def abs_real_def and_then_def returns_def consume_def emit_def)
  from reset_and_mouseUp [of env0 world_msg event_release] f n t
  have one: "\<exists>me1 w1. mouseUp env0 event_release world_msg = Inr (me1, w1) \<and>
              in_reset_state (conn w1) \<and> \<not> isConnecting (conn w1)"
    by simp
  from reset_and_mouseUp [of env0 world_wp event_release] y m
  have two: "conn (world_wp\<lparr>effects := [PreventDefault]\<rparr>) = conn world_wp"
    by simp
  from f n t one y m two show ?thesis by simp
qed

subsection \<open>Validation errors\<close>

text \<open>
  Claim C3 as stated (on \<open>mouseUp\<close> of a connection gesture whose stored validation error is
  a non-empty string, \<open>validationAlert\<close> is invoked with that error) fails: the error is
  shown only by the \<open>mouseUp\<close> that ends the gesture. A \<open>mouseUp\<close> whose event is already
  consumed resets the handler and shows nothing; with waypoints enabled, a \<open>mouseUp\<close> with
  no cell state under the event is a waypoint click, which shows nothing and leaves the
  gesture and its stored error as they were.
\<close>

theorem mouseUp_no_alert_counterexample:
  "isConnecting (conn world_msg) \<and> error (conn world_msg) = Some ''Invalid target'' \<and>
   mouseUp env0 consumed0 world_msg = Inr (consumed0, reset env0 world_msg) \<and>
   effects (reset env0 world_msg)
     = [ShapeDestroy, MarkerReset, ConstraintReset, FireEvent ''reset'' None] \<and>
   isConnecting (conn world_wp_msg) \<and> error (conn world_wp_msg) = Some ''Invalid target'' \<and>
   \<not> isConsumed event_release \<and>
   mouseUp env0 event_release world_wp_msg
     = Inr (event_release\<lparr>consumed := True\<rparr>, world_wp_msg\<lparr>effects := [PreventDefault]\<rparr>)"
  by (simp add: world_msg_def world_wp_msg_def consumed0_def event_release_def fixture_defs
        mouseUp_def isConsumed_def isConnecting_def isStopEvent_def getState_def
        addWaypointForEvent_def Let_def abs_real_def and_then_def returns_def consume_def emit_def
        reset_def destroyIcons_def reset_marker_def reset_constraintHandler_def)

text \<open>
  Claim C3, amended. Validation errors are shown, not thrown. \<open>validationAlert(message)\<close>
  calls \<open>alert(message)\<close>. On the \<open>mouseUp\<close> that ends a connection gesture (the event is not
  consumed, a connection is previewed, the event is not a waypoint click) with a stored
  validation error that is a non-empty string, \<open>connect\<close> is not run, so no edge is inserted,
  and \<open>alert\<close> is called once, with that error; with the empty string as stored error no
  edge is inserted and nothing is displayed. This holds of the world the call leaves, and
  on a page that defines \<open>TouchEvent\<close> the call returns. Every other \<open>mouseUp\<close> (the event
  is consumed, or no connection is previewed, or the event is a waypoint click) shows
  nothing and inserts no edge. In \<open>TextShape.updateBoundingBox\<close> an exception raised by
  \<open>node.getBBox()\<close> is caught: execution goes on behind the \<open>try\<close> block, and with a margin
  set the method returns normally.
\<close>

theorem validation_errors_alert:
  "validationAlert message fx = fx @ [Alert message] \<and>
   (gesture_end me w \<and> error (conn w) = Some msg \<and> msg \<noteq> [] \<longrightarrow>
      filter is_connect (effects (world_left (mouseUp E me w))) = filter is_connect (effects w) \<and>
      filter is_alert (effects (world_left (mouseUp E me w)))
        = filter is_alert (effects w) @ [Alert (Some msg)]) \<and>
   (gesture_end me w \<and> error (conn w) = Some [] \<longrightarrow>
      filter is_connect (effects (world_left (mouseUp E me w))) = filter is_connect (effects w) \<and>
      filter is_alert (effects (world_left (mouseUp E me w))) = filter is_alert (effects w)) \<and>
   (gesture_end me w \<and> has_TouchEvent (browser E) \<longrightarrow>
      (\<exists>me1 w1. mouseUp E me w = Inr (me1, w1))) \<and>
   (\<not> gesture_end me w \<longrightarrow>
      filter is_connect (effects (world_left (mouseUp E me w))) = filter is_connect (effects w) \<and>
      filter is_alert (effects (world_left (mouseUp E me w))) = filter is_alert (effects w)) \<and>
   (node ts = Some n \<and> \<not> has_foreignObject n \<and> getBBox n = Inl e \<longrightarrow>
      updateBoundingBox I ts = apply_margin I (ts\<lparr>boundingBox := Some (ts_bounds ts)\<rparr>) \<and>
      (margin ts \<noteq> None \<longrightarrow> (\<exists>ts1. updateBoundingBox I ts = Inr ts1)))"
proof (intro conjI impI)
  show "validationAlert message fx = fx @ [Alert message]" by (simp add: validationAlert_def)
next
  assume a: "gesture_end me w \<and> error (conn w) = Some msg \<and> msg \<noteq> []"
  then show "filter is_connect (effects (world_left (mouseUp E me w)))
               = filter is_connect (effects w)"
    by (simp add: mouseUp_gesture_end_world_left reset_effects mouseUp_finish_error)
next
  assume a: "gesture_end me w \<and> error (conn w) = Some msg \<and> msg \<noteq> []"
  then show "filter is_alert (effects (world_left (mouseUp E me w)))
               = filter is_alert (effects w) @ [Alert (Some msg)]"
    by (simp add: mouseUp_gesture_end_world_left reset_effects mouseUp_finish_error)
next
  assume a: "gesture_end me w \<and> error (conn w) = Some []"
  then show "filter is_connect (effects (world_left (mouseUp E me w)))
               = filter is_connect (effects w)"
    by (simp add: mouseUp_gesture_end_world_left reset_effects mouseUp_finish_error)
next
  assume a: "gesture_end me w \<and> error (conn w) = Some []"
  then show "filter is_alert (effects (world_left (mouseUp E me w)))
               = filter is_alert (effects w)"
    by (simp add: mouseUp_gesture_end_world_left reset_effects mouseUp_finish_error)
next
  assume a: "gesture_end me w \<and> has_TouchEvent (browser E)"
  then show "\<exists>me1 w1. mouseUp E me w = Inr (me1, w1)"
    using mouseUp_gesture_end(1) [of me w E] by blast
next
  assume a: "\<not> gesture_end me w"
  then show "filter is_connect (effects (world_left (mouseUp E me w)))
               = filter is_connect (effects w)"
    by (rule mouseUp_not_gesture_end(1))
next
  assume a: "\<not> gesture_end me w"
  then show "filter is_alert (effects (world_left (mouseUp E me w)))
               = filter is_alert (effects w)"
    by (rule mouseUp_not_gesture_end(2))
next
  assume a: "node ts = Some n \<and> \<not> has_foreignObject n \<and> getBBox n = Inl e"
  then show "updateBoundingBox I ts = apply_margin I (ts\<lparr>boundingBox := Some (ts_bounds ts)\<rparr>)"
    by (simp add: updateBoundingBox_def Let_def measure_bbox_def)
next
  assume a: "node ts = Some n \<and> \<not> has_foreignObject n \<and> getBBox n = Inl e"
  assume m: "margin ts \<noteq> None"
  have "updateBoundingBox I ts = apply_margin I (ts\<lparr>boundingBox := Some (ts_bounds ts)\<rparr>)"
    using a by (simp add: updateBoundingBox_def Let_def measure_bbox_def)
  then show "\<exists>ts1. updateBoundingBox I ts = Inr ts1"
    using m by (auto simp add: apply_margin_def Let_def)
qed

theorem validation_errors_alert_witness:
  "gesture_end event_release world_msg \<and> error (conn world_msg) = Some ''Invalid target'' \<and>
   has_TouchEvent (browser env0) \<and>
   filter is_connect (effects (world_left (mouseUp env0 event_release world_msg))) = [] \<and>
   filter is_alert (effects (world_left (mouseUp env0 event_release world_msg)))
     = [Alert (Some ''Invalid target'')] \<and>
   (\<exists>me1 w1. mouseUp env0 event_release world_msg = Inr (me1, w1)) \<and>
   gesture_end event_release world_silent \<and> error (conn world_silent) = Some [] \<and>
   filter is_connect (effects (world_left (mouseUp env0 event_release world_silent))) = [] \<and>
   filter is_alert (effects (world_left (mouseUp env0 event_release world_silent))) = [] \<and>
   \<not> gesture_end consumed0 world_msg \<and>
   filter is_connect (effects (world_left (mouseUp env0 consumed0 world_msg))) = [] \<and>
   filter is_alert (effects (world_left (mouseUp env0 consumed0 world_msg))) = [] \<and>
   node label0 = Some hidden_node \<and> getBBox hidden_node = Inl DomError \<and>
   updateBoundingBox imports0 label0
     = Inr (label0\<lparr>boundingBox := Some \<lparr>rx = - 10, ry = 14, rwidth = 40, rheight = 12\<rparr>\<rparr>)"
proof -
  have g1: "gesture_end event_release world_msg"
    by (simp add: gesture_end_def world_msg_def event_release_def fixture_defs
          isConsumed_def isConnecting_def)
  have e1: "error (conn world_msg) = Some ''Invalid target''"
    by (simp add: world_msg_def fixture_defs)
  have x1: "effects world_msg = []"
    by (simp add: world_msg_def world0_def)
  have t: "has_TouchEvent (browser env0)"
    by (simp add: env0_def browser0_def)
  have g2: "gesture_end event_release world_silent"
    by (simp add: gesture_end_def world_silent_def event_release_def fixture_defs
          isConsumed_def isConnecting_def)
  have e2: "error (conn world_silent) = Some []"
    by (simp add: world_silent_def fixture_defs)
  have x2: "effects world_silent = []"
    by (simp add: world_silent_def world0_def)
  have g3: "\<not> gesture_end consumed0 world_msg"
    by (simp add: gesture_end_def consumed0_def isConsumed_def)
  have n: "node label0 = Some hidden_node \<and> \<not> has_foreignObject hidden_node \<and>
           getBBox hidden_node = Inl DomError"
    by (simp add: label0_def hidden_node_def)
  from validation_errors_alert [of None "[]" event_release world_msg "''Invalid target''" env0]
    g1 e1 x1 t
  have one: "filter is_connect (effects (world_left (mouseUp env0 event_release world_msg))) = [] \<and>
      filter is_alert (effects (world_left (mouseUp env0 event_release world_msg)))
        = [Alert (Some ''Invalid target'')] \<and>
      (\<exists>me1 w1. mouseUp env0 event_release world_msg = Inr (me1, w1))"
    by simp
  from validation_errors_alert [of None "[]" event_release world_silent "[]" env0] g2 e2 x2
  have two: "filter is_connect (effects (world_left (mouseUp env0 event_release world_silent))) = [] \<and>
      filter is_alert (effects (world_left (mouseUp env0 event_release world_silent))) = []"
    by simp
  from validation_errors_alert [of None "[]" consumed0 world_msg "[]" env0] g3 x1
  have three: "filter is_connect (effects (world_left (mouseUp env0 consumed0 world_msg))) = [] \<and>
      filter is_alert (effects (world_left (mouseUp env0 consumed0 world_msg))) = []"
    by simp
  from validation_errors_alert
         [of None "[]" event_release world0 "[]" env0 label0 hidden_node DomError imports0] n
  have "updateBoundingBox imports0 label0
          = apply_margin imports0 (label0\<lparr>boundingBox := Some (ts_bounds label0)\<rparr>)"
    by simp
  then have four: "updateBoundingBox imports0 label0
     = Inr (label0\<lparr>boundingBox := Some \<lparr>rx = - 10, ry = 14, rwidth = 40, rheight = 12\<rparr>\<rparr>)"
    by (simp add: apply_margin_def label0_def)
  from g1 e1 t one g2 e2 two g3 three n four show ?thesis by simp
qed

subsection \<open>The preview during mouse moves\<close>

lemma only_target_changed_refl [simp]: "only_target_changed h h"
  by (simp add: only_target_changed_def)

lemma only_target_changed_upd [simp]:
  "only_target_changed h (h\<lparr>error := e\<rparr>)"
  "only_target_changed h (h\<lparr>currentState := c\<rparr>)"
  "only_target_changed h (h\<lparr>error := e, currentState := c\<rparr>)"
  by (simp_all add: only_target_changed_def)

lemma only_target_changed_trans:
  assumes "only_target_changed h h1" and "only_target_changed h1 h2"
  shows "only_target_changed h h2"
proof -
  obtain e1 c1 where 1: "h1 = h\<lparr>error := e1, currentState := c1\<rparr>"
    using assms(1) unfolding only_target_changed_def by blast
  obtain e2 c2 where 2: "h2 = h1\<lparr>error := e2, currentState := c2\<rparr>"
    using assms(2) unfolding only_target_changed_def by blast
  show ?thesis unfolding only_target_changed_def by (simp add: 1 2)
qed

lemma conn_set_highlight_shape [simp]: "conn (set_highlight_shape hs w) = conn w"
  by (simp add: set_highlight_shape_def)

lemma conn_reset_marker [simp]: "conn (reset_marker E w) = conn w"
  by (simp add: reset_marker_def)

lemma updateCurrentState_focus_keeps:
  "updateCurrentState_focus E me cf w = Inr (b, w1) \<Longrightarrow> only_target_changed (conn w) (conn w1)"
  by (auto simp add: updateCurrentState_focus_def Let_def and_then_def returns_def throw_def
        only_target_changed_def
        split: option.splits if_splits)

lemma updateCurrentState_marker_keeps:
  "updateCurrentState_marker E me p w = Inr (b, w1) \<Longrightarrow> only_target_changed (conn w) (conn w1)"
  by (auto simp add: updateCurrentState_marker_def Let_def and_then_def returns_def throw_def
        only_target_changed_def isCellEnabled_def
        split: option.splits if_splits sum.splits prod.splits)

lemma updateCurrentState_keeps:
  "updateCurrentState E me p w = Inr (b, w1) \<Longrightarrow> only_target_changed (conn w) (conn w1)"
  by (auto simp add: updateCurrentState_def Let_def throw_def
        dest: updateCurrentState_marker_keeps updateCurrentState_focus_keeps
        split: option.splits if_splits sum.splits prod.splits)

lemma move_selectedIcon_keeps:
  "only_icons_and_point_changed (conn w) (conn (move_selectedIcon E me w))"
  "constraintHandler (move_selectedIcon E me w) = constraintHandler w"
  "prefix (effects w) (effects (move_selectedIcon E me w))"
  by (auto simp add: move_selectedIcon_def Let_def only_icons_and_point_changed_def
        split: option.splits)

lemma only_icons_and_point_changed_refl [simp]: "only_icons_and_point_changed h h"
  by (simp add: only_icons_and_point_changed_def)

lemma only_icons_and_point_changed_trans:
  assumes "only_icons_and_point_changed h h1" and "only_icons_and_point_changed h1 h2"
  shows "only_icons_and_point_changed h h2"
proof -
  obtain a1 b1 c1 d1 e1 where 1:
    "h1 = h\<lparr>selectedIcon := a1, icons := b1, icon := c1, currentPoint := d1, originalPoint := e1\<rparr>"
    using assms(1) unfolding only_icons_and_point_changed_def by blast
  obtain a2 b2 c2 d2 e2 where 2:
    "h2 = h1\<lparr>selectedIcon := a2, icons := b2, icon := c2, currentPoint := d2, originalPoint := e2\<rparr>"
    using assms(2) unfolding only_icons_and_point_changed_def by blast
  show ?thesis unfolding only_icons_and_point_changed_def by (simp add: 1 2)
qed

lemma write_point_keeps:
  "\<not> fr_cur_in_edge fr \<Longrightarrow> only_icons_and_point_changed (conn w) (conn (write_point fr p w))"
  "effects (write_point fr p w) = effects w"
  by (simp_all add: write_point_def Let_def only_icons_and_point_changed_def)

lemma preview_pick_keeps:
  assumes "preview_pick E me p sh w = (c, fr, w1)"
  shows "only_icons_and_point_changed (conn w) (conn w1)"
    and "effects w1 = effects w"
    and "fr_pt2 fr = first (conn w)"
    and "fr_current fr \<noteq> None"
    and "\<not> fr_cur_in_edge fr"
  using assms
  by (auto simp add: preview_pick_def Let_def write_point_def only_icons_and_point_changed_def
        split: option.splits if_splits prod.splits)

lemma preview_target_point_keeps:
  assumes "preview_target_point E me fr w = Inr (fr2, w3)"
  shows "w3 = w"
    and "fr_pt2 fr2 = fr_pt2 fr"
    and "fr_current fr \<noteq> None \<longrightarrow> fr_current fr2 \<noteq> None"
    and "fr_cur_in_edge fr2 = fr_cur_in_edge fr"
  using assms
  by (auto simp add: preview_target_point_def returns_def throw_def
        split: option.splits if_splits sum.splits)

lemma preview_source_point_keeps:
  "fr_current (preview_source_point E me fr w) = fr_current fr"
  "fr_cur_in_edge (preview_source_point E me fr w) = fr_cur_in_edge fr"
  "fr_pt2 fr \<noteq> None \<longrightarrow> fr_pt2 (preview_source_point E me fr w) \<noteq> None"
  "sourceConstraint (conn w) \<noteq> None \<or> previous (conn w) = None
     \<longrightarrow> fr_pt2 (preview_source_point E me fr w) = fr_pt2 fr"
  by (auto simp add: preview_source_point_def Let_def split: option.splits list.splits)

lemma same_gesture_refl [simp]: "same_gesture h h"
  by (simp add: same_gesture_def)

lemma same_gesture_trans: "same_gesture h h1 \<Longrightarrow> same_gesture h1 h2 \<Longrightarrow> same_gesture h h2"
  by (simp add: same_gesture_def)

lemma only_target_changed_same_gesture:
  assumes "only_target_changed h h1" shows "same_gesture h h1"
proof -
  obtain e1 c1 where 1: "h1 = h\<lparr>error := e1, currentState := c1\<rparr>"
    using assms unfolding only_target_changed_def by blast
  show ?thesis by (simp add: 1 same_gesture_def)
qed

lemma only_icons_and_point_changed_same_gesture:
  assumes "only_icons_and_point_changed h h1" shows "same_gesture h h1"
    and "error h1 = error h" and "currentState h1 = currentState h"
proof -
  obtain a1 b1 c1 d1 e1 where 1:
    "h1 = h\<lparr>selectedIcon := a1, icons := b1, icon := c1, currentPoint := d1, originalPoint := e1\<rparr>"
    using assms unfolding only_icons_and_point_changed_def by blast
  show "same_gesture h h1" "error h1 = error h" "currentState h1 = currentState h"
    by (simp_all add: 1 same_gesture_def)
qed

lemma and_then_Inr:
  "and_then m f = Inr r \<Longrightarrow> \<exists>a w. m = Inr (a, w) \<and> f a w = Inr r"
  by (auto simp add: and_then_def split: sum.splits)

lemma mouseMove_update_keeps:
  assumes a: "mouseMove_update E me p w = Inr (b, w4)"
  shows "same_gesture (conn w) (conn w4)"
proof -
  have "updateCurrentState E me p w = Inr (b, w4) \<or> w4 = w"
    using a by (simp add: mouseMove_update_def Let_def returns_def split: if_splits)
  then show "same_gesture (conn w) (conn w4)"
    using updateCurrentState_keeps [of E me p w b w4]
      only_target_changed_same_gesture [of "conn w" "conn w4"]
    by auto
qed

lemma snapToPreview_same_gesture:
  "same_gesture h h1 \<Longrightarrow> snapToPreview E h1 me p = snapToPreview E h me p"
  by (simp add: snapToPreview_def same_gesture_def Let_def split: option.splits)

lemma getTargetPerimeterPoint_same_gesture:
  "same_gesture h h1 \<Longrightarrow> getTargetPerimeterPoint E h1 st me = getTargetPerimeterPoint E h st me"
  by (simp add: getTargetPerimeterPoint_def same_gesture_def
        split: option.splits list.splits sum.splits)

lemma axis_point_same_gesture:
  "same_gesture h h1 \<Longrightarrow> axis_point E me h1 p = axis_point E me h p"
  by (simp add: axis_point_def same_gesture_def split: option.splits)

lemma target_end_same_gesture:
  assumes g: "same_gesture h h1"
  shows "target_end E me h1 tgt c p = target_end E me h tgt c p"
  unfolding target_end_def axis_point_same_gesture [OF g]
    getTargetPerimeterPoint_same_gesture [OF g]
  by (rule refl)

lemma source_end_same_gesture:
  "same_gesture h h1 \<Longrightarrow> source_end E me h1 f cur = source_end E me h f cur"
  by (simp add: source_end_def same_gesture_def split: option.splits list.splits)

lemma mouseMove_point_keeps:
  assumes "mouseMove_point E me w = Inr (p, w3)"
  shows "same_gesture (conn w) (conn w3)" and "prefix (effects w) (effects w3)"
    and "ShapeRedraw \<notin> set (drop (length (effects w)) (effects w3))"
  using assms
  by (auto simp add: mouseMove_point_def Let_def returns_def throw_def destroyIcons_def
        same_gesture_def split: option.splits if_splits sum.splits)

lemma mouseMove_point_snaps:
  assumes a: "mouseMove_point E me w = Inr (p, w3)"
  shows "snapToPreview E (conn w) me \<lparr>px = getGraphX me, py = getGraphY me\<rparr> = Inr p"
proof -
  define h2 where
    "h2 = (conn (if \<not> isEnabled (conn w) \<and> currentState (conn w) \<noteq> None
                 then (destroyIcons w)\<lparr>conn := (conn (destroyIcons w))\<lparr>currentState := None\<rparr>\<rparr>
                 else w))\<lparr>error := None\<rparr>"
  have g: "same_gesture (conn w) h2"
    by (simp add: h2_def same_gesture_def destroyIcons_def split: option.splits)
  have "snapToPreview E h2 me \<lparr>px = getGraphX me, py = getGraphY me\<rparr> = Inr p"
    using a
    by (auto simp add: mouseMove_point_def Let_def returns_def throw_def h2_def
          split: if_splits sum.splits)
  then show ?thesis using snapToPreview_same_gesture [OF g] by simp
qed



lemma no_redraw_refl [simp]: "no_redraw w w"
  by (simp add: no_redraw_def)

lemma no_redraw_same: "effects w1 = effects w \<Longrightarrow> no_redraw w w1"
  by (simp add: no_redraw_def)

lemma no_redraw_trans: "no_redraw w w1 \<Longrightarrow> no_redraw w1 w2 \<Longrightarrow> no_redraw w w2"
  by (auto simp add: no_redraw_def prefix_def)

lemma no_redraw_prefix: "no_redraw w w1 \<Longrightarrow> prefix (effects w) (effects w1)"
  by (simp add: no_redraw_def)

lemma updateCurrentState_focus_quiet:
  "updateCurrentState_focus E me cf w = Inr (b, w1) \<Longrightarrow> no_redraw w w1 \<and> \<not> b"
  by (auto simp add: updateCurrentState_focus_def Let_def and_then_def returns_def throw_def
        set_highlight_shape_def reset_constraintHandler_def no_redraw_def
        split: option.splits if_splits)

lemma updateCurrentState_marker_quiet:
  "updateCurrentState_marker E me p w = Inr (b, w1) \<Longrightarrow>
     no_redraw w w1 \<and> (b \<longrightarrow> ch_currentPoint (constraintHandler w1) = Some p)"
  by (auto simp add: updateCurrentState_marker_def Let_def and_then_def returns_def throw_def
        set_highlight_shape_def reset_constraintHandler_def reset_marker_def isCellEnabled_def
        no_redraw_def
        split: option.splits if_splits sum.splits prod.splits)

lemma updateCurrentState_quiet:
  assumes a: "updateCurrentState E me p w = Inr (b, w1)"
  shows "no_redraw w w1" and "b \<longrightarrow> ch_currentPoint (constraintHandler w1) = Some p"
proof -
  define parg where
    "parg = (if first (conn w) = None then None
             else (case highlight (marker w) of
                     None \<Rightarrow> None
                   | Some hl \<Rightarrow> if isSource E me (hl_shape hl) then None else Some p))"
  define w0 where
    "w0 = emit [ConstraintUpdate]
            (w\<lparr>constraintHandler :=
                 ch_update (ext E) me (first (conn w) = None) False parg (constraintHandler w)\<rparr>)"
  have c: "(\<exists>cf. updateCurrentState_focus E me cf w0 = Inr (b, w1))
            \<or> updateCurrentState_marker E me p w0 = Inr (b, w1)"
    using a
    by (auto simp add: updateCurrentState_def Let_def throw_def w0_def parg_def
          split: option.splits if_splits sum.splits prod.splits)
  have q0: "no_redraw w w0" by (simp add: w0_def no_redraw_def)
  from c show "no_redraw w w1"
    using updateCurrentState_focus_quiet [of E me _ w0 b w1]
      updateCurrentState_marker_quiet [of E me p w0 b w1] q0
    by (blast intro: no_redraw_trans)
  from c show "b \<longrightarrow> ch_currentPoint (constraintHandler w1) = Some p"
    using updateCurrentState_focus_quiet [of E me _ w0 b w1]
      updateCurrentState_marker_quiet [of E me p w0 b w1]
    by blast
qed

lemma mouseMove_update_quiet:
  assumes a: "mouseMove_update E me p w = Inr (b, w4)"
  shows "no_redraw w w4" and "b \<longrightarrow> ch_currentPoint (constraintHandler w4) = Some p"
proof -
  have "updateCurrentState E me p w = Inr (b, w4) \<or> (w4 = w \<and> \<not> b)"
    using a by (auto simp add: mouseMove_update_def Let_def returns_def split: if_splits)
  then show "no_redraw w w4" and "b \<longrightarrow> ch_currentPoint (constraintHandler w4) = Some p"
    using updateCurrentState_quiet [of E me p w b w4] by auto
qed


lemma write_point_constraint:
  "currentConstraint (constraintHandler (write_point fr p w)) = currentConstraint (constraintHandler w)"
  "currentFocus (constraintHandler (write_point fr p w)) = currentFocus (constraintHandler w)"
  "(fr_cur_is_point fr \<and> fr_shared fr \<longrightarrow>
      currentConstraint (constraintHandler w) = None \<or> currentFocus (constraintHandler w) = None)
   \<Longrightarrow> constrained_point (constraintHandler (write_point fr p w))
         = constrained_point (constraintHandler w)"
  by (auto simp add: write_point_def Let_def constrained_point_def split: option.splits)

lemma preview_pick_current:
  assumes "preview_pick E me p sh w = (c, fr, w1)"
      and "sh \<longrightarrow> ch_currentPoint (constraintHandler w) \<noteq> None"
  shows "fr_current fr = Some (case constrained_point (constraintHandler w) of
                                 Some cp \<Rightarrow> cp
                               | None \<Rightarrow> axis_point E me (conn w) p)"
    and "constrained_point (constraintHandler w1) = constrained_point (constraintHandler w)"
    and "currentConstraint (constraintHandler w1) = currentConstraint (constraintHandler w)"
    and "fr_cur_is_point fr \<and> fr_shared fr \<longrightarrow>
           currentConstraint (constraintHandler w1) = None \<or>
           currentFocus (constraintHandler w1) = None"
  using assms
  apply (auto simp add: preview_pick_def Let_def write_point_def constrained_point_def
        axis_point_def abs_real_def
        split: option.splits if_splits prod.splits)
  apply (rule exI, erule sym)
  done

lemma preview_target_point_current:
  assumes "preview_target_point E me fr w = Inr (fr2, w3)" and "fr_current fr = Some cur"
  shows "fr_current fr2
           = Some (case currentState (conn w) of
                     None \<Rightarrow> cur
                   | Some cs \<Rightarrow>
                       if currentConstraint (constraintHandler w) = None then
                         (case getTargetPerimeterPoint E (conn w) cs me of
                            Inr (Some tmp) \<Rightarrow> tmp
                          | _ \<Rightarrow> cur)
                       else cur)"
    and "fr_cur_is_point fr2 \<longrightarrow> fr_cur_is_point fr"
    and "fr_shared fr2 = fr_shared fr"
  using assms
  by (auto simp add: preview_target_point_def returns_def throw_def
        split: option.splits if_splits sum.splits)

lemma preview_source_point_pt2:
  assumes "fr_current fr = Some cur" and "fr_pt2 fr = Some f"
  shows "fr_pt2 (preview_source_point E me fr w) = Some (source_end E me (conn w) f cur)"
    and "fr_cur_is_point (preview_source_point E me fr w) = fr_cur_is_point fr"
    and "fr_shared (preview_source_point E me fr w) = fr_shared fr"
  using assms
  by (auto simp add: preview_source_point_def source_end_def Let_def
        split: option.splits list.splits)

lemma preview_away_result:
  assumes "preview_away fr w = Inr (r, w1)" and "edgeState (conn w) = None"
      and "fr_current fr = Some cur" and "fr_pt2 fr = Some p2"
  shows "moves_away (conn w) (currentState (conn w)) \<and> distance p2 cur = 0
           \<longrightarrow> r = None \<and> w1 = w"
    and "moves_away (conn w) (currentState (conn w)) \<and> distance p2 cur \<noteq> 0
           \<longrightarrow> (\<exists>fr1. r = Some fr1 \<and> fr_current fr1 = Some (moved_away p2 cur) \<and>
                       fr_pt2 fr1 = Some p2)"
    and "\<not> moves_away (conn w) (currentState (conn w)) \<longrightarrow> r = Some fr"
    and "currentConstraint (constraintHandler w1) = currentConstraint (constraintHandler w)"
    and "(fr_cur_is_point fr \<and> fr_shared fr \<longrightarrow>
            currentConstraint (constraintHandler w) = None \<or>
            currentFocus (constraintHandler w) = None)
         \<longrightarrow> constrained_point (constraintHandler w1) = constrained_point (constraintHandler w)"
  using assms
  by (auto simp add: preview_away_def Let_def returns_def throw_def write_point_constraint
        moves_away_def distance_def moved_away_def
        split: option.splits if_splits)

lemma preview_shape_draws:
  assumes "preview_shape E me fr w = Inr (m, w7)"
      and "shape (conn w) = Some s" and "edgeState (conn w) = None"
  shows "m = me\<lparr>consumed := True\<rparr>"
    and "conn w7 = (conn w)\<lparr>shape := Some (updatePreview (error (conn w) = None)
                        (s\<lparr>sh_points := fr_pt2 fr # map Some (waypoint_list (conn w)) @
                                          [fr_current fr]\<rparr>))\<rparr>"
    and "\<exists>fx. effects w7 = effects w @ fx \<and> ShapeRedraw \<in> set fx"
    and "constraintHandler w7 = constraintHandler w"
  using assms
  by (auto simp add: preview_shape_def and_then_def returns_def throw_def drawPreview_def Let_def
        emit_def consume_def waypoint_list_def split: option.splits if_splits)


lemma mouseMove_point_quiet:
  assumes "mouseMove_point E me w = Inr (p, w3)"
  shows "no_redraw w w3"
  using mouseMove_point_keeps(2,3) [OF assms] by (simp add: no_redraw_def)

lemma move_selectedIcon_quiet: "no_redraw w (move_selectedIcon E me w)"
  by (simp add: move_selectedIcon_def Let_def no_redraw_def split: option.splits)

lemma target_end_cong:
  assumes "constrained_point c1 = constrained_point c"
      and "currentConstraint c1 = currentConstraint c"
  shows "target_end E me h tgt c1 p = target_end E me h tgt c p"
  unfolding target_end_def assms by (rule refl)

lemma preview_terminals_points:
  assumes t: "preview_terminals E me p sh w = Inr (fr, w1)"
      and e: "edgeState (conn w) = None"
      and f: "first (conn w) = Some f"
      and s: "sh \<longrightarrow> ch_currentPoint (constraintHandler w) \<noteq> None"
  shows "same_gesture (conn w) (conn w1)"
    and "no_redraw w w1"
    and "currentState (conn w1) = currentState (conn w)"
    and "error (conn w1) = error (conn w)"
    and "currentConstraint (constraintHandler w1) = currentConstraint (constraintHandler w)"
    and "constrained_point (constraintHandler w1) = constrained_point (constraintHandler w)"
    and "fr_current fr
           = Some (target_end E me (conn w) (currentState (conn w)) (constraintHandler w) p)"
    and "fr_pt2 fr
           = Some (source_end E me (conn w) f
                     (target_end E me (conn w) (currentState (conn w)) (constraintHandler w) p))"
    and "\<not> fr_cur_in_edge fr"
    and "fr_cur_is_point fr \<and> fr_shared fr \<longrightarrow>
           currentConstraint (constraintHandler w1) = None \<or>
           currentFocus (constraintHandler w1) = None"
proof -
  obtain c fr0 w0 where pk: "preview_pick E me p sh w = (c, fr0, w0)"
    by (cases "preview_pick E me p sh w") auto
  let ?w2 = "move_selectedIcon E me w0"
  let ?cur0 = "case constrained_point (constraintHandler w) of
                 Some cp \<Rightarrow> cp | None \<Rightarrow> axis_point E me (conn w) p"
  note pc = preview_pick_current [OF pk s]
  note k0 = only_icons_and_point_changed_same_gesture [OF preview_pick_keeps(1) [OF pk]]
  note k2 = only_icons_and_point_changed_same_gesture
              [OF move_selectedIcon_keeps(1) [of w0 E me]]
  have g: "same_gesture (conn w) (conn ?w2)"
    using k0(1) k2(1) by (rule same_gesture_trans)
  have cs: "currentState (conn ?w2) = currentState (conn w)"
    using k0(3) k2(3) by simp
  have er: "error (conn ?w2) = error (conn w)"
    using k0(2) k2(2) by simp
  have ch2: "constraintHandler ?w2 = constraintHandler w0"
    by (rule move_selectedIcon_keeps(2))
  have q: "no_redraw w ?w2"
    using no_redraw_same [OF preview_pick_keeps(2) [OF pk]] move_selectedIcon_quiet [of w0 E me]
    by (rule no_redraw_trans)
  have es: "edgeState (conn ?w2) = None"
    using g e by (simp add: same_gesture_def)
  have eq: "preview_terminals E me p sh w
              = and_then (preview_target_point E me fr0 ?w2)
                  (\<lambda>fr2 w3. returns (preview_source_point E me fr2 w3) w3)"
    by (simp add: preview_terminals_def pk es Let_def)
  have t2: "and_then (preview_target_point E me fr0 ?w2)
                  (\<lambda>fr2 w3. returns (preview_source_point E me fr2 w3) w3) = Inr (fr, w1)"
    using t by (simp only: eq)
  from and_then_Inr [OF t2] obtain fr2 w3 where
    tp: "preview_target_point E me fr0 ?w2 = Inr (fr2, w3)"
    and r0: "returns (preview_source_point E me fr2 w3) w3 = Inr (fr, w1)"
    by blast
  have r: "fr = preview_source_point E me fr2 w3" "w1 = w3"
    using r0 by (auto simp add: returns_def)
  have w3: "w3 = ?w2" using preview_target_point_keeps(1) [OF tp] .
  have w1: "w1 = ?w2" using r w3 by simp
  show "same_gesture (conn w) (conn w1)" using g w1 by simp
  show "no_redraw w w1" using q w1 by simp
  show "currentState (conn w1) = currentState (conn w)" using cs w1 by simp
  show "error (conn w1) = error (conn w)" using er w1 by simp
  show "currentConstraint (constraintHandler w1) = currentConstraint (constraintHandler w)"
    using pc(3) ch2 w1 by simp
  show "constrained_point (constraintHandler w1) = constrained_point (constraintHandler w)"
    using pc(2) ch2 w1 by simp
  have c2: "fr_current fr2
              = Some (target_end E me (conn w) (currentState (conn w)) (constraintHandler w) p)"
    using preview_target_point_current(1) [OF tp pc(1)]
    unfolding target_end_def Let_def cs ch2 pc(3) getTargetPerimeterPoint_same_gesture [OF g]
    by simp
  show "fr_current fr
          = Some (target_end E me (conn w) (currentState (conn w)) (constraintHandler w) p)"
    using c2 r(1) preview_source_point_keeps(1) [where w = w3 and E = E and me = me and fr = fr2]
    by simp
  have p2: "fr_pt2 fr2 = Some f"
    using preview_target_point_keeps(2) [OF tp] preview_pick_keeps(3) [OF pk] f by simp
  show "fr_pt2 fr
          = Some (source_end E me (conn w) f
                    (target_end E me (conn w) (currentState (conn w)) (constraintHandler w) p))"
    using preview_source_point_pt2(1) [OF c2 p2, of E me w3] r(1) w3
      source_end_same_gesture [OF g] by simp
  show "\<not> fr_cur_in_edge fr"
    using preview_target_point_keeps(4) [OF tp] preview_pick_keeps(5) [OF pk] r
      preview_source_point_keeps(2) [where w = w3 and E = E and me = me and fr = fr2] by simp
  show "fr_cur_is_point fr \<and> fr_shared fr \<longrightarrow>
           currentConstraint (constraintHandler w1) = None \<or>
           currentFocus (constraintHandler w1) = None"
    using pc(4) preview_target_point_current(2,3) [OF tp pc(1)]
      preview_source_point_pt2(2,3) [OF c2 p2, of E me w3] r(1) ch2 w1
    by auto
qed

lemma preview_away_keeps:
  assumes "preview_away fr w = Inr (r, w1)" and "\<not> fr_cur_in_edge fr"
  shows "r = None \<longrightarrow> w1 = w \<and> movePreviewAway (conn w) \<and> currentState (conn w) = None"
    and "same_gesture (conn w) (conn w1)"
    and "effects w1 = effects w"
    and "error (conn w1) = error (conn w)"
    and "currentState (conn w1) = currentState (conn w)"
    and "\<forall>fr1. r = Some fr1 \<longrightarrow> fr_pt2 fr1 = fr_pt2 fr \<and>
            (fr_current fr \<noteq> None \<longrightarrow> fr_current fr1 \<noteq> None)"
  using assms
  by (auto simp add: preview_away_def Let_def returns_def throw_def write_point_def
        same_gesture_def split: option.splits if_splits)

lemma mouseMove_icons_id: "mouseMove_icons E me w = w"
  by (simp add: mouseMove_icons_def updateIcons_def split: option.splits)

text \<open>
  Claim C5 as stated (every non-consumed mouse move during an active gesture with a preview
  shape and no edge state sets the shape's points and redraws it) fails: with
  \<open>movePreviewAway\<close> set and no target state, a move whose current point coincides with the
  source point has distance \<open>0\<close>, and \<open>mouseMove\<close> returns before it touches the shape. The
  points of the shape stay as they were (here: none) and nothing is redrawn.
\<close>

theorem mouseMove_away_counterexample:
  "preview_active event_back world_away \<and>
   mouseMove env0 event_back world_away
     = Inr (event_back,
            world_away\<lparr>conn := (conn world_away)\<lparr>currentPoint := Some \<lparr>px = 50, py = 20\<rparr>\<rparr>,
                        effects := [ConstraintUpdate, MarkerProcess]\<rparr>) \<and>
   map_option sh_points (shape (conn world_away)) = Some []"
  by (simp add: preview_active_def world_away_def event_back_def fixture_defs mouseMove_defs)

text \<open>
  Claim C5, amended. Take a non-consumed mouse move during an active gesture (\<open>first\<close> set)
  with a preview shape and no edge state, and let \<open>mouseMove\<close> return. The mouse point is
  \<open>(graphX, graphY)\<close> as \<open>snapToPreview\<close> leaves it. The current point is the constraint
  handler's point when that has a constraint, a focus and a point, and otherwise the mouse
  point, moved with the shift key onto an axis through the centre of the source; a target
  state without constraint replaces it by its perimeter point. The source point \<open>pt2\<close> is
  \<open>this.first\<close>, or the perimeter point of a source that has no constraint. If
  \<open>movePreviewAway\<close> is set, there is no target state, and the distance of \<open>pt2\<close> and the
  current point is \<open>0\<close>, then \<open>mouseMove\<close> has returned early: the shape is untouched,
  nothing was redrawn and the event is not consumed. In every other case the shape's point
  list is exactly \<open>[pt2] @ waypoints @ [current]\<close> (the waypoints in order, none when
  \<open>waypoints\<close> is \<open>null\<close>), where with \<open>movePreviewAway\<close> set and no target state
  \<open>current\<close> is the current point moved by \<open>4\<close> units towards \<open>pt2\<close>; the shape's stroke
  and width are those \<open>drawPreview\<close> sets for the validation state, the shape has been
  redrawn in this call, and the event is consumed.
\<close>

theorem mouseMove_preview_points:
  "preview_active me w \<and> first (conn w) = Some f \<and> shape (conn w) = Some s \<and>
   mouseMove E me w = Inr (me1, w1) \<longrightarrow>
     (\<exists>point.
        snapToPreview E (conn w) me \<lparr>px = getGraphX me, py = getGraphY me\<rparr> = Inr point \<and>
        (let tgt = currentState (conn w1);
             cur = target_end E me (conn w) tgt (constraintHandler w1) point;
             pt2 = source_end E me (conn w) f cur
         in if moves_away (conn w) tgt \<and> distance pt2 cur = 0 then
              shape (conn w1) = Some s \<and> me1 = me \<and> no_redraw w w1
            else
              shape (conn w1)
                = Some (updatePreview (error (conn w1) = None)
                          (s\<lparr>sh_points :=
                               Some pt2 # map Some (waypoint_list (conn w)) @
                               [Some (if moves_away (conn w) tgt then moved_away pt2 cur
                                      else cur)]\<rparr>)) \<and>
              (\<exists>fx. effects w1 = effects w @ fx \<and> ShapeRedraw \<in> set fx) \<and>
              isConsumed me1))"
proof (intro impI)
  assume a: "preview_active me w \<and> first (conn w) = Some f \<and> shape (conn w) = Some s \<and>
             mouseMove E me w = Inr (me1, w1)"
  then have f: "first (conn w) = Some f" and s: "shape (conn w) = Some s"
    and e: "edgeState (conn w) = None" and nc: "\<not> isConsumed me"
    and mm: "mouseMove E me w = Inr (me1, w1)"
    by (auto simp add: preview_active_def)
  have h: "mouseMove_handled E me w = Inr (me1, w1)"
    using mm nc f by (simp add: mouseMove_def)
  from and_then_Inr [OF h [unfolded mouseMove_handled_def]] obtain point w3 where
    p: "mouseMove_point E me w = Inr (point, w3)"
    and h2: "and_then (mouseMove_update E me point w3)
            (\<lambda>shared w4.
               and_then
                 (if first (conn w4) \<noteq> None then mouseMove_preview E me point shared w4
                  else and_then (mouseMove_hover E me w4)
                         (\<lambda>me2 w5. returns (True, me2) w5))
                 (\<lambda>r w8.
                    case r of
                      (finished, me3) \<Rightarrow>
                        if finished then returns me3 (mouseMove_icons E me3 w8)
                        else returns me3 w8)) = Inr (me1, w1)"
    by blast
  from and_then_Inr [OF h2] obtain shared w4 where
    u: "mouseMove_update E me point w3 = Inr (shared, w4)"
    and h3: "and_then
                 (if first (conn w4) \<noteq> None then mouseMove_preview E me point shared w4
                  else and_then (mouseMove_hover E me w4)
                         (\<lambda>me2 w5. returns (True, me2) w5))
                 (\<lambda>r w8.
                    case r of
                      (finished, me3) \<Rightarrow>
                        if finished then returns me3 (mouseMove_icons E me3 w8)
                        else returns me3 w8) = Inr (me1, w1)"
    by blast
  have sp: "snapToPreview E (conn w) me \<lparr>px = getGraphX me, py = getGraphY me\<rparr> = Inr point"
    using p by (rule mouseMove_point_snaps)
  have g4: "same_gesture (conn w) (conn w4)"
    using mouseMove_point_keeps(1) [OF p] mouseMove_update_keeps(1) [OF u]
    by (rule same_gesture_trans)
  have q4: "no_redraw w w4"
    using mouseMove_point_quiet [OF p] mouseMove_update_quiet(1) [OF u]
    by (rule no_redraw_trans)
  have sh4: "shared \<longrightarrow> ch_currentPoint (constraintHandler w4) \<noteq> None"
    using mouseMove_update_quiet(2) [OF u] by simp
  have f4: "first (conn w4) = Some f" and e4: "edgeState (conn w4) = None"
    using g4 f e by (simp_all add: same_gesture_def)
  from and_then_Inr [OF h3] f4 obtain r w8 where
    v: "mouseMove_preview E me point shared w4 = Inr (r, w8)"
    and fin: "(case r of
                 (finished, me3) \<Rightarrow>
                   if finished then returns me3 (mouseMove_icons E me3 w8)
                   else returns me3 w8) = Inr (me1, w1)"
    by auto
  from and_then_Inr [OF v [unfolded mouseMove_preview_def]] obtain fr w5 where
    t: "preview_terminals E me point shared w4 = Inr (fr, w5)"
    and v2: "and_then (preview_away fr w5)
            (\<lambda>r w6.
               case r of
                 None \<Rightarrow> returns (False, me) w6
               | Some fr1 \<Rightarrow>
                   and_then (preview_shape E me fr1 w6)
                     (\<lambda>me1 w7. returns (True, me1) w7)) = Inr (r, w8)"
    by blast
  note tk = preview_terminals_points [OF t e4 f4 sh4]
  from and_then_Inr [OF v2] obtain ra w6 where
    aw: "preview_away fr w5 = Inr (ra, w6)"
    and v3: "(case ra of
                 None \<Rightarrow> returns (False, me) w6
               | Some fr1 \<Rightarrow>
                   and_then (preview_shape E me fr1 w6)
                     (\<lambda>me1 w7. returns (True, me1) w7)) = Inr (r, w8)"
    by blast
  have e5: "edgeState (conn w5) = None"
    using tk(1) e4 by (simp add: same_gesture_def)
  note ak = preview_away_keeps [OF aw tk(9)]
  have g5: "same_gesture (conn w) (conn w5)"
    using g4 tk(1) by (rule same_gesture_trans)
  have g6: "same_gesture (conn w) (conn w6)"
    using g5 ak(2) by (rule same_gesture_trans)
  have q6: "no_redraw w w6"
    using q4 tk(2) no_redraw_same [OF ak(3)] by (blast intro: no_redraw_trans)
  define tgt where "tgt = currentState (conn w4)"
  define cur where "cur = target_end E me (conn w) tgt (constraintHandler w4) point"
  define pt2 where "pt2 = source_end E me (conn w) f cur"
  have fc: "fr_current fr = Some cur"
    using tk(7) by (simp add: cur_def tgt_def target_end_same_gesture [OF g4])
  have fp: "fr_pt2 fr = Some pt2"
    using tk(8)
    by (simp add: pt2_def cur_def tgt_def target_end_same_gesture [OF g4]
          source_end_same_gesture [OF g4])
  note ar = preview_away_result [OF aw e5 fc fp]
  have t6: "currentState (conn w6) = tgt"
    using ak(5) tk(3) by (simp add: tgt_def)
  have ma: "moves_away (conn w5) (currentState (conn w5)) = moves_away (conn w) tgt"
    using g5 tk(3) by (simp add: moves_away_def same_gesture_def tgt_def)
  have c6: "currentConstraint (constraintHandler w6) = currentConstraint (constraintHandler w4)"
    using ar(4) tk(5) by simp
  have d6: "constrained_point (constraintHandler w6) = constrained_point (constraintHandler w4)"
    using ar(5) tk(6) tk(10) by simp
  have te6: "target_end E me (conn w) tgt (constraintHandler w6) point = cur"
    unfolding cur_def using d6 c6 by (rule target_end_cong)
  show "\<exists>point.
        snapToPreview E (conn w) me \<lparr>px = getGraphX me, py = getGraphY me\<rparr> = Inr point \<and>
        (let tgt = currentState (conn w1);
             cur = target_end E me (conn w) tgt (constraintHandler w1) point;
             pt2 = source_end E me (conn w) f cur
         in if moves_away (conn w) tgt \<and> distance pt2 cur = 0 then
              shape (conn w1) = Some s \<and> me1 = me \<and> no_redraw w w1
            else
              shape (conn w1)
                = Some (updatePreview (error (conn w1) = None)
                          (s\<lparr>sh_points :=
                               Some pt2 # map Some (waypoint_list (conn w)) @
                               [Some (if moves_away (conn w) tgt then moved_away pt2 cur
                                      else cur)]\<rparr>)) \<and>
              (\<exists>fx. effects w1 = effects w @ fx \<and> ShapeRedraw \<in> set fx) \<and>
              isConsumed me1)"
  proof (cases ra)
    case None
    then have "r = (False, me)" and "w8 = w6"
      using v3 by (auto simp add: returns_def)
    then have m1: "me1 = me" and w1: "w1 = w6"
      using fin by (auto simp add: returns_def)
    have away: "moves_away (conn w) tgt \<and> distance pt2 cur = 0"
      using ar(1,2,3) None
      by (cases "moves_away (conn w) tgt"; cases "distance pt2 cur = 0") (auto simp add: ma)
    have sh: "shape (conn w1) = Some s"
      using g6 s w1 by (simp add: same_gesture_def)
    show ?thesis
      apply (rule exI [of _ point])
      using sp away sh m1 q6 t6 te6
      by (simp add: w1 Let_def pt2_def)
  next
    case (Some fr1)
    have s6: "shape (conn w6) = Some s" and e6: "edgeState (conn w6) = None"
      using g6 s e by (simp_all add: same_gesture_def)
    from v3 Some obtain m w7 where
      ps: "preview_shape E me fr1 w6 = Inr (m, w7)" and r8: "r = (True, m)" and w8: "w8 = w7"
      by (auto simp add: and_then_def returns_def split: sum.splits)
    note d = preview_shape_draws [OF ps s6 e6]
    have m1: "me1 = me\<lparr>consumed := True\<rparr>" and w1: "w1 = w7"
      using fin r8 w8 d(1) by (auto simp add: returns_def mouseMove_icons_id)
    have notearly: "\<not> (moves_away (conn w) tgt \<and> distance pt2 cur = 0)"
      using ar(1) Some by (simp add: ma)
    have fr1c: "fr_current fr1
                  = Some (if moves_away (conn w) tgt then moved_away pt2 cur else cur)"
      and fr1p: "fr_pt2 fr1 = Some pt2"
      using ar(2,3) Some fc fp notearly by (auto simp add: ma)
    have wl: "waypoint_list (conn w6) = waypoint_list (conn w)"
      using g6 by (simp add: same_gesture_def waypoint_list_def)
    have t7: "currentState (conn w1) = tgt"
      using d(2) t6 w1 by simp
    have er7: "error (conn w1) = error (conn w6)"
      using d(2) w1 by simp
    have te7: "target_end E me (conn w) tgt (constraintHandler w1) point = cur"
      using te6 d(4) w1 by simp
    have c1: "shape (conn w1)
                = Some (updatePreview (error (conn w1) = None)
                          (s\<lparr>sh_points :=
                               Some pt2 # map Some (waypoint_list (conn w)) @
                               [Some (if moves_away (conn w) tgt then moved_away pt2 cur
                                      else cur)]\<rparr>))"
      using d(2) w1 fr1c fr1p wl by simp
    obtain zs where zs: "effects w6 = effects w @ zs"
      using no_redraw_prefix [OF q6] by (auto simp add: prefix_def)
    obtain ys where ys: "effects w7 = effects w6 @ ys" "ShapeRedraw \<in> set ys"
      using d(3) by blast
    have c2: "\<exists>fx. effects w1 = effects w @ fx \<and> ShapeRedraw \<in> set fx"
      apply (rule exI [of _ "zs @ ys"])
      using zs ys w1 by simp
    have c4: "isConsumed me1" using m1 by (simp add: isConsumed_def)
    show ?thesis
      apply (rule exI [of _ point])
      using sp notearly c1 c2 c4 t7 te7
      by (auto simp add: Let_def pt2_def)
  qed
qed


theorem mouseMove_preview_points_witness:
  "preview_active event_drag world_drag \<and>
   first (conn world_drag) = Some \<lparr>px = 50, py = 20\<rparr> \<and>
   shape (conn world_drag) = Some polyline0 \<and>
   mouseMove env0 event_drag world_drag = Inr (event_drag\<lparr>consumed := True\<rparr>, world_drawn) \<and>
   shape (conn world_drawn)
     = Some (updatePreview True
               (polyline0\<lparr>sh_points := [Some \<lparr>px = 50, py = 20\<rparr>, Some \<lparr>px = 30, py = 40\<rparr>]\<rparr>)) \<and>
   (\<exists>fx. effects world_drawn = effects world_drag @ fx \<and> ShapeRedraw \<in> set fx) \<and>
   preview_active event_far world_away \<and>
   mouseMove env0 event_far world_away = Inr (event_far\<lparr>consumed := True\<rparr>, world_moved) \<and>
   shape (conn world_moved)
     = Some (updatePreview True
               (polyline0\<lparr>sh_points := [Some \<lparr>px = 50, py = 20\<rparr>,
                                         Some \<lparr>px = 268 / 5, py = 124 / 5\<rparr>]\<rparr>)) \<and>
   preview_active event_back world_away \<and>
   mouseMove env0 event_back world_away
     = Inr (event_back,
            world_away\<lparr>conn := (conn world_away)\<lparr>currentPoint := Some \<lparr>px = 50, py = 20\<rparr>\<rparr>,
                        effects := [ConstraintUpdate, MarkerProcess]\<rparr>) \<and>
   no_redraw world_away
     (world_away\<lparr>conn := (conn world_away)\<lparr>currentPoint := Some \<lparr>px = 50, py = 20\<rparr>\<rparr>,
                 effects := [ConstraintUpdate, MarkerProcess]\<rparr>)"
proof -
  have sq: "sqrt (100 :: real) = 10"
    using real_sqrt_abs [of "10 :: real"] by simp
  have pa: "preview_active event_drag world_drag"
    by (simp add: preview_active_def world_drag_def event_drag_def fixture_defs isConsumed_def)
  have fd: "first (conn world_drag) = Some \<lparr>px = 50, py = 20\<rparr>"
    by (simp add: world_drag_def fixture_defs)
  have sd: "shape (conn world_drag) = Some polyline0"
    by (simp add: world_drag_def fixture_defs)
  have mm: "mouseMove env0 event_drag world_drag = Inr (event_drag\<lparr>consumed := True\<rparr>, world_drawn)"
    by (simp add: world_drawn_def world_drag_def event_drag_def fixture_defs mouseMove_defs)
  have snd: "snapToPreview env0 (conn world_drag) event_drag
               \<lparr>px = getGraphX event_drag, py = getGraphY event_drag\<rparr> = Inr \<lparr>px = 30, py = 40\<rparr>"
    by (simp add: world_drag_def event_drag_def fixture_defs snapToPreview_def getGraphX_def
          getGraphY_def abs_real_def Let_def)
  have vd: "currentState (conn world_drawn) = None \<and>
            target_end env0 event_drag (conn world_drag) None (constraintHandler world_drawn)
              \<lparr>px = 30, py = 40\<rparr> = \<lparr>px = 30, py = 40\<rparr> \<and>
            source_end env0 event_drag (conn world_drag) \<lparr>px = 50, py = 20\<rparr> \<lparr>px = 30, py = 40\<rparr>
              = \<lparr>px = 50, py = 20\<rparr> \<and>
            \<not> moves_away (conn world_drag) None \<and> error (conn world_drawn) = None \<and>
            waypoint_list (conn world_drag) = []"
    by (simp add: world_drawn_def world_drag_def event_drag_def fixture_defs target_end_def
          source_end_def constrained_point_def axis_point_def moves_away_def waypoint_list_def)
  from mouseMove_preview_points
         [of event_drag world_drag "\<lparr>px = 50, py = 20\<rparr>" polyline0 env0
             "event_drag\<lparr>consumed := True\<rparr>" world_drawn] pa fd sd mm
  have one: "shape (conn world_drawn)
     = Some (updatePreview True
               (polyline0\<lparr>sh_points := [Some \<lparr>px = 50, py = 20\<rparr>, Some \<lparr>px = 30, py = 40\<rparr>]\<rparr>)) \<and>
   (\<exists>fx. effects world_drawn = effects world_drag @ fx \<and> ShapeRedraw \<in> set fx)"
    by (simp add: snd vd Let_def)
  have pf: "preview_active event_far world_away"
    by (simp add: preview_active_def world_away_def event_far_def fixture_defs isConsumed_def)
  have fa: "first (conn world_away) = Some \<lparr>px = 50, py = 20\<rparr>"
    by (simp add: world_away_def fixture_defs)
  have sa: "shape (conn world_away) = Some polyline0"
    by (simp add: world_away_def fixture_defs)
  have mf: "mouseMove env0 event_far world_away = Inr (event_far\<lparr>consumed := True\<rparr>, world_moved)"
    by (simp add: world_moved_def world_away_def event_far_def fixture_defs mouseMove_defs
          write_point_def sq)
  have snf: "snapToPreview env0 (conn world_away) event_far
               \<lparr>px = getGraphX event_far, py = getGraphY event_far\<rparr> = Inr \<lparr>px = 56, py = 28\<rparr>"
    by (simp add: world_away_def event_far_def fixture_defs snapToPreview_def getGraphX_def
          getGraphY_def abs_real_def Let_def)
  have vf: "currentState (conn world_moved) = None \<and>
            target_end env0 event_far (conn world_away) None (constraintHandler world_moved)
              \<lparr>px = 56, py = 28\<rparr> = \<lparr>px = 56, py = 28\<rparr> \<and>
            source_end env0 event_far (conn world_away) \<lparr>px = 50, py = 20\<rparr> \<lparr>px = 56, py = 28\<rparr>
              = \<lparr>px = 50, py = 20\<rparr> \<and>
            moves_away (conn world_away) None \<and> error (conn world_moved) = None \<and>
            waypoint_list (conn world_away) = [] \<and>
            distance \<lparr>px = 50, py = 20\<rparr> \<lparr>px = 56, py = 28\<rparr> = 10 \<and>
            moved_away \<lparr>px = 50, py = 20\<rparr> \<lparr>px = 56, py = 28\<rparr> = \<lparr>px = 268 / 5, py = 124 / 5\<rparr>"
    by (simp add: world_moved_def world_away_def event_far_def fixture_defs target_end_def
          source_end_def constrained_point_def axis_point_def moves_away_def waypoint_list_def
          distance_def moved_away_def sq)
  from mouseMove_preview_points
         [of event_far world_away "\<lparr>px = 50, py = 20\<rparr>" polyline0 env0
             "event_far\<lparr>consumed := True\<rparr>" world_moved] pf fa sa mf
  have two: "shape (conn world_moved)
     = Some (updatePreview True
               (polyline0\<lparr>sh_points := [Some \<lparr>px = 50, py = 20\<rparr>,
                                         Some \<lparr>px = 268 / 5, py = 124 / 5\<rparr>]\<rparr>))"
    by (simp add: snf vf Let_def)
  define world_back where
    "world_back = world_away\<lparr>conn := (conn world_away)\<lparr>currentPoint := Some \<lparr>px = 50, py = 20\<rparr>\<rparr>,
                             effects := [ConstraintUpdate, MarkerProcess]\<rparr>"
  have pb: "preview_active event_back world_away"
    by (simp add: preview_active_def world_away_def event_back_def fixture_defs isConsumed_def)
  have mb: "mouseMove env0 event_back world_away = Inr (event_back, world_back)"
    by (simp add: world_back_def world_away_def event_back_def fixture_defs mouseMove_defs)
  have snb: "snapToPreview env0 (conn world_away) event_back
               \<lparr>px = getGraphX event_back, py = getGraphY event_back\<rparr> = Inr \<lparr>px = 50, py = 20\<rparr>"
    by (simp add: world_away_def event_back_def fixture_defs snapToPreview_def getGraphX_def
          getGraphY_def abs_real_def Let_def)
  have vb: "currentState (conn world_back) = None \<and>
            target_end env0 event_back (conn world_away) None (constraintHandler world_back)
              \<lparr>px = 50, py = 20\<rparr> = \<lparr>px = 50, py = 20\<rparr> \<and>
            source_end env0 event_back (conn world_away) \<lparr>px = 50, py = 20\<rparr> \<lparr>px = 50, py = 20\<rparr>
              = \<lparr>px = 50, py = 20\<rparr> \<and>
            moves_away (conn world_away) None \<and>
            distance \<lparr>px = 50, py = 20\<rparr> \<lparr>px = 50, py = 20\<rparr> = 0"
    by (simp add: world_back_def world_away_def event_back_def fixture_defs target_end_def
          source_end_def constrained_point_def axis_point_def moves_away_def distance_def)
  from mouseMove_preview_points
         [of event_back world_away "\<lparr>px = 50, py = 20\<rparr>" polyline0 env0 event_back world_back]
    pb fa sa mb
  have three: "no_redraw world_away world_back"
    by (simp add: snb vb Let_def)
  from pa fd sd mm one pf mf two pb mb three show ?thesis
    unfolding world_back_def by (intro conjI) simp_all
qed


subsection \<open>Snapping to the grid\<close>

lemma mouseMove_grid_raises:
  assumes "\<not> isConsumed me"
      and "ignoreMouseDown (conn w) \<or> first (conn w) \<noteq> None \<or> \<not> isMouseDown (graph E)"
      and "isGridEnabledEvent (graph E) (evt me)"
  shows "\<exists>w1. mouseMove E me w = Inl (TypeError, w1) \<and>
              currentPoint (conn w1) = currentPoint (conn w)"
  using assms
  by (auto simp add: mouseMove_def mouseMove_handled_def mouseMove_point_def Let_def
        and_then_def throw_def destroyIcons_def split: option.splits)

text \<open>
  Claim C4 (for a non-consumed mouse move with grid snapping enabled, \<open>mouseMove\<close> stores
  the snapped point \<open>((snap(graphX/scale - tr.x) + tr.x) * scale, ...)\<close> in
  \<open>this.currentPoint\<close>) against the code: the snapped point is built by \<open>new point(...)\<close>,
  which raises. For the move to \<open>(13, 27)\<close> on a grid of \<open>10\<close> the claim gives
  \<open>currentPoint = (10, 30)\<close>; the code raises a \<open>TypeError\<close> and leaves \<open>currentPoint\<close>
  \<open>null\<close>.
\<close>

theorem mouseMove_grid_type_error:
  "\<not> isConsumed event_grid \<and> isGridEnabledEvent (graph env_grid) (evt event_grid) \<and>
   (grid_snap (graph env_grid) (graphX event_grid / scale (view (graph env_grid))) = 10 \<and>
    grid_snap (graph env_grid) (graphY event_grid / scale (view (graph env_grid))) = 30) \<and>
   mouseMove env_grid event_grid world0 = Inl (TypeError, world0) \<and>
   currentPoint (conn world0) = None"
  by (simp add: env_grid_def event_grid_def fixture_defs mouseMove_defs round_def)


theorem mouseMove_grid_type_error_witness:
  "\<not> isConsumed event_grid \<and> \<not> isMouseDown (graph env_grid) \<and>
   mouseMove env_grid event_grid world0 = Inl (TypeError, world0)"
  using mouseMove_grid_type_error
  by (simp add: env_grid_def fixture_defs)

subsection \<open>Snapping to the preview source\<close>

lemma snapToPreview_with_constraint:
  assumes "\<not> altDown (evt me)" and "previous h = Some p" and "sourceConstraint h = Some sc"
      and "first h = Some f"
  shows "snapToPreview E h me point
           = Inr \<lparr>px = (if \<bar>px f - graphX me\<bar> < gridSize (graph E) * scale (view (graph E)) / 2
                         then px f else px point),
                  py = (if \<bar>py f - graphY me\<bar> < gridSize (graph E) * scale (view (graph E)) / 2
                         then py f else py point)\<rparr>"
  using assms by (simp add: snapToPreview_def Let_def abs_real_def getGraphX_def getGraphY_def)

lemma snapToPreview_without_constraint_raises:
  assumes "\<not> altDown (evt me)" and "previous h = Some p" and "sourceConstraint h = None"
  shows "snapToPreview E h me point = Inl TypeError"
  using assms by (simp add: snapToPreview_def Let_def)

text \<open>
  Claim C7 (without the Alt key and with a source, \<open>snapToPreview\<close> sets \<open>point.x\<close> to the
  reference x whenever it is within \<open>gridSize * scale / 2\<close> of \<open>graphX\<close>, the reference being
  \<open>this.first\<close> with a source constraint and the centre of the source state otherwise, and
  likewise for y) against the code: without a source constraint the reference is built by
  \<open>new point(...)\<close>, which raises. For the source centred at \<open>(50, 20)\<close> and the move to
  \<open>(49, 21)\<close> the claim gives the point \<open>(50, 20)\<close>; the code raises a \<open>TypeError\<close>.
\<close>

theorem snapToPreview_type_error:
  "\<not> altDown (evt event_near) \<and> previous handler_src = Some state1 \<and>
   sourceConstraint handler_src = None \<and>
   \<bar>centerX state1 - graphX event_near\<bar> < gridSize (graph env0) * scale (view (graph env0)) / 2 \<and>
   \<bar>centerY state1 - graphY event_near\<bar> < gridSize (graph env0) * scale (view (graph env0)) / 2 \<and>
   snapToPreview env0 handler_src event_near \<lparr>px = 49, py = 21\<rparr> = Inl TypeError"
  by (simp add: handler_src_def event_near_def fixture_defs snapToPreview_def Let_def)

end
